theory Spec2Isabelle
  imports Main "HOL-Library.Sublist" "HOL-Library.AList" "HOL-Library.Multiset"
begin

section \<open>JavaScript strings and arrays\<close>

text \<open>
  Strings are \<open>char list\<close>; the model covers ASCII text. \<open>nl\<close> is the line feed the
  generators join their lines with, \<open>sq\<close> the single quote of the emitted TypeScript.
\<close>

definition nl :: string where
  "nl = [CHR 0x0A]"

definition sq :: string where
  "sq = [CHR 0x27]"

text \<open>\<open>Array.prototype.join\<close>.\<close>

fun join :: "string \<Rightarrow> string list \<Rightarrow> string" where
  "join sep [] = []"
| "join sep [x] = x"
| "join sep (x # y # ys) = x @ sep @ join sep (y # ys)"

text \<open>The ASCII characters matched by \<open>\s\<close> and stripped by \<open>String.prototype.trim\<close>.\<close>

definition is_space :: "char \<Rightarrow> bool" where
  "is_space c = (c = CHR '' '' \<or> c = CHR 0x09 \<or> c = CHR 0x0A \<or> c = CHR 0x0B
     \<or> c = CHR 0x0C \<or> c = CHR 0x0D)"

definition trim :: "string \<Rightarrow> string" where
  "trim s = rev (dropWhile is_space (rev (dropWhile is_space s)))"

text \<open>\<open>s.replace(/\s+/g, '')\<close>: every run of white space is deleted.\<close>

definition remove_spaces :: "string \<Rightarrow> string" where
  "remove_spaces s = filter (\<lambda>c. \<not> is_space c) s"

text \<open>\<open>toUpperCase\<close> and \<open>toLowerCase\<close> on ASCII text: the letters \<open>a\<close> to \<open>z\<close> and \<open>A\<close> to
  \<open>Z\<close> change case and every other ASCII character is kept. The case mappings that
  JavaScript applies to characters outside ASCII are not part of the model.\<close>

definition upper_char :: "char \<Rightarrow> char" where
  "upper_char c =
     (case map_of (zip ''abcdefghijklmnopqrstuvwxyz'' ''ABCDEFGHIJKLMNOPQRSTUVWXYZ'') c of
        Some u \<Rightarrow> u | None \<Rightarrow> c)"

definition lower_char :: "char \<Rightarrow> char" where
  "lower_char c =
     (case map_of (zip ''ABCDEFGHIJKLMNOPQRSTUVWXYZ'' ''abcdefghijklmnopqrstuvwxyz'') c of
        Some l \<Rightarrow> l | None \<Rightarrow> c)"

definition toUpperCase :: "string \<Rightarrow> string" where
  "toUpperCase s = map upper_char s"

definition toLowerCase :: "string \<Rightarrow> string" where
  "toLowerCase s = map lower_char s"

text \<open>\<open>str.charAt(0).toUpperCase() + str.slice(1)\<close>; \<open>charAt(0)\<close> of the empty string
  is the empty string.\<close>

fun capitalize :: "string \<Rightarrow> string" where
  "capitalize [] = []"
| "capitalize (c # cs) = upper_char c # cs"

text \<open>The truth value JavaScript gives an optional string: \<open>undefined\<close> and the empty
  string are falsy.\<close>

fun truthy :: "string option \<Rightarrow> bool" where
  "truthy None = False"
| "truthy (Some s) = (s \<noteq> [])"

text \<open>\<open>a || b\<close> on an optional string with a string default.\<close>

fun or_default :: "string option \<Rightarrow> string \<Rightarrow> string" where
  "or_default None d = d"
| "or_default (Some s) d = (if s = [] then d else s)"

text \<open>\<open>forEach((x, index) => ...)\<close> walks the array with its indices.\<close>

definition indexed :: "'a list \<Rightarrow> (nat \<times> 'a) list" where
  "indexed xs = zip [0 ..< length xs] xs"

section \<open>The domain model\<close>

text \<open>
  The types of \<open>@/types\<close>, as the store and the generators use them. A
  \<open>Record<string, T>\<close> is an association list in the order in which \<open>Object.entries\<close>
  gives its entries. For the keys that the store creates, which are UUIDs, that is the
  order of insertion. \<open>importModel\<close> keeps the keys of the file it reads: there a key
  that is the decimal numeral of an array index is given before every other key, in
  numeric order, whatever the order of insertion. The position of a node on the canvas
  is a pair of numbers that no function of the model computes with.
\<close>

record Field =
  field_id :: string
  field_name :: string
  field_type :: string
  field_optional :: bool

record EnumVariant =
  variant_id :: string
  variant_name :: string
  variant_payload :: "string option"

datatype Cardinality = One | Optional | Many

record Morphism =
  morphism_id :: string
  sourceId :: string
  targetId :: string
  morphism_name :: string
  cardinality :: Cardinality

record EntityNode =
  entity_name :: string
  entity_fields :: "Field list"

record ValueNode =
  value_name :: string
  value_fields :: "Field list"

record EnumNode =
  enum_name :: string
  enum_variants :: "EnumVariant list"

record AggregateNode =
  aggregate_name :: string
  rootId :: string
  memberIds :: "string list"
  invariants :: "string list"

text \<open>The union \<open>DomainNode\<close>, discriminated by \<open>kind\<close>.\<close>

datatype DomainNode =
  Entity EntityNode
| Value ValueNode
| Enum EnumNode
| Aggregate AggregateNode

datatype Kind = KEntity | KValue | KEnum | KAggregate

fun kind :: "DomainNode \<Rightarrow> Kind" where
  "kind (Entity n) = KEntity"
| "kind (Value n) = KValue"
| "kind (Enum n) = KEnum"
| "kind (Aggregate n) = KAggregate"

fun node_name :: "DomainNode \<Rightarrow> string" where
  "node_name (Entity n) = entity_name n"
| "node_name (Value n) = value_name n"
| "node_name (Enum n) = enum_name n"
| "node_name (Aggregate n) = aggregate_name n"

record NodeData =
  node :: DomainNode
  position :: "int \<times> int"

type_synonym Nodes = "(string \<times> NodeData) list"

record ContextData =
  context_id :: string
  context_name :: string
  nodes :: Nodes
  context_morphisms :: "Morphism list"

text \<open>\<open>nodes[id]?.node\<close>, and \<open>Object.entries(nodes).find(([k]) => k === id)?.[1]?.node\<close>,
  which finds the same entry.\<close>

definition lookup_node :: "Nodes \<Rightarrow> string \<Rightarrow> DomainNode option" where
  "lookup_node ns i = map_option node (map_of ns i)"

section \<open>Code generation options and results\<close>

datatype TargetLanguage = TypeScript | Java | CSharp

record CodeGenOptions =
  language :: TargetLanguage
  includeComments :: bool
  generateInterfaces :: bool
  generateClasses :: bool
  namespace :: "string option"
  packageName :: "string option"

record GeneratedFile =
  filename :: string
  content :: string
  file_language :: TargetLanguage

section \<open>The TypeScript backend\<close>

definition ts_typeMap :: "(string \<times> string) list" where
  "ts_typeMap =
     [(''string'', ''string''), (''String'', ''string''),
      (''int'', ''number''), (''integer'', ''number''),
      (''Int'', ''number''), (''Integer'', ''number''),
      (''float'', ''number''), (''Float'', ''number''),
      (''double'', ''number''), (''Double'', ''number''),
      (''number'', ''number''), (''Number'', ''number''),
      (''boolean'', ''boolean''), (''Boolean'', ''boolean''),
      (''bool'', ''boolean''), (''Bool'', ''boolean''),
      (''date'', ''Date''), (''Date'', ''Date''),
      (''datetime'', ''Date''), (''DateTime'', ''Date''),
      (''uuid'', ''string''), (''UUID'', ''string'')]"

text \<open>
  \<open>typeMap[type]\<close> also finds the properties that the object literal inherits from
  \<open>Object.prototype\<close>. They are functions (and, for \<open>__proto__\<close>, the prototype object),
  all of them truthy, so \<open>||\<close> returns them, and the template literal that receives the
  result prints them. \<open>inherited_text\<close> is that print, as V8 (Node.js, Chromium) writes a
  native function; other engines write the same words with other white space.
\<close>

definition inherited_functions :: "string list" where
  "inherited_functions =
     [''__defineGetter__'', ''__defineSetter__'', ''hasOwnProperty'', ''__lookupGetter__'',
      ''__lookupSetter__'', ''isPrototypeOf'', ''propertyIsEnumerable'', ''toString'',
      ''valueOf'', ''toLocaleString'']"

definition inherited_text :: "string \<Rightarrow> string option" where
  "inherited_text t =
     (if t = ''__proto__'' then Some ''[object Object]''
      else if t = ''constructor'' then Some ''function Object() { [native code] }''
      else if t \<in> set inherited_functions then Some (''function '' @ t @ ''() { [native code] }'')
      else None)"

text \<open>\<open>typeMap[type] || type\<close>, as the text that the caller's template literal prints:
  every entry of the table is a non-empty string, so the right operand is taken exactly
  for a type name that is neither a key of the table nor an inherited property.\<close>

definition type_or_name :: "(string \<times> string) list \<Rightarrow> string \<Rightarrow> string" where
  "type_or_name typeMap t =
     (case map_of typeMap t of
        Some r \<Rightarrow> r
      | None \<Rightarrow> (case inherited_text t of Some x \<Rightarrow> x | None \<Rightarrow> t))"

definition mapTypeToTS :: "string \<Rightarrow> string" where
  "mapTypeToTS t = type_or_name ts_typeMap t"

definition ts_field_line :: "Field \<Rightarrow> string" where
  "ts_field_line f =
     ''  '' @ field_name f @ (if field_optional f then ''?'' else '''') @ '': ''
       @ mapTypeToTS (field_type f) @ '';''"

definition ts_ctor_line :: "Field \<Rightarrow> string" where
  "ts_ctor_line f = ''    this.'' @ field_name f @ '' = data.'' @ field_name f @ '';''"

text \<open>The relationship line of one morphism, pushed only when its target resolves.\<close>

definition ts_morphism_lines :: "Nodes \<Rightarrow> Morphism \<Rightarrow> string list" where
  "ts_morphism_lines ns m =
     (case lookup_node ns (targetId m) of
        None \<Rightarrow> []
      | Some targetNode \<Rightarrow>
          (let card = (if cardinality m = Many then ''[]''
                       else if cardinality m = Optional then '' | null'' else '''')
           in [''  '' @ morphism_name m @ (if cardinality m = Optional then ''?'' else '''')
                 @ '': '' @ node_name targetNode @ (if card = ''[]'' then ''[]'' else card)
                 @ '';'']))"

definition ts_entity_lines ::
  "EntityNode \<Rightarrow> Morphism list \<Rightarrow> Nodes \<Rightarrow> CodeGenOptions \<Rightarrow> string list" where
  "ts_entity_lines n ms ns options =
     (if includeComments options
      then [''/**'', '' * Entity: '' @ entity_name n,
            '' * An entity with a unique identity'', '' */'']
      else [])
     @ (if generateInterfaces options
        then [''export interface '' @ entity_name n @ '' {'', ''  readonly id: string;'']
          @ map ts_field_line (entity_fields n)
          @ concat (map (ts_morphism_lines ns)
              (filter (\<lambda>m. sourceId m = entity_name n
                  \<or> map_option node_name (lookup_node ns (sourceId m)) = Some (entity_name n)) ms))
          @ [''}'']
        else [])
     @ (if generateClasses options
        then ['''',
              ''export class '' @ entity_name n @ ''Impl implements '' @ entity_name n @ '' {'',
              ''  readonly id: string;'']
          @ map ts_field_line (entity_fields n)
          @ ['''',
             ''  constructor(data: Omit<'' @ entity_name n @ '', '' @ sq @ ''id'' @ sq
               @ ''> & { id?: string }) {'',
             ''    this.id = data.id ?? crypto.randomUUID();'']
          @ map ts_ctor_line (entity_fields n)
          @ [''  }'', ''}'']
        else [])"

definition ts_generateEntity ::
  "EntityNode \<Rightarrow> Morphism list \<Rightarrow> Nodes \<Rightarrow> CodeGenOptions \<Rightarrow> string" where
  "ts_generateEntity n ms ns options = join nl (ts_entity_lines n ms ns options)"

text \<open>The value object: read-only members, no \<open>id\<close>, and an \<open>equals\<close> method.\<close>

definition ts_value_member :: "Field \<Rightarrow> string" where
  "ts_value_member f =
     ''  readonly '' @ field_name f @ (if field_optional f then ''?'' else '''') @ '': ''
       @ mapTypeToTS (field_type f) @ '';''"

definition ts_value_class_member :: "Field \<Rightarrow> string" where
  "ts_value_class_member f =
     ''  readonly '' @ field_name f @ '': '' @ mapTypeToTS (field_type f) @ '';''"

definition ts_equals_term :: "Field \<Rightarrow> string" where
  "ts_equals_term f = ''this.'' @ field_name f @ '' === other.'' @ field_name f"

text \<open>\<open>fields.map(...).join(' && ') || 'true'\<close>.\<close>

definition ts_equals_expr :: "Field list \<Rightarrow> string" where
  "ts_equals_expr fs =
     (let e = join '' && '' (map ts_equals_term fs) in if e = [] then ''true'' else e)"

text \<open>The three blocks of \<open>generateValueObject\<close>, each under its option.\<close>

definition ts_value_comment :: "ValueNode \<Rightarrow> string list" where
  "ts_value_comment n =
     [''/**'', '' * Value Object: '' @ value_name n,
      '' * An immutable value type identified by its attributes'', '' */'']"

definition ts_value_interface :: "ValueNode \<Rightarrow> string list" where
  "ts_value_interface n =
     [''export interface '' @ value_name n @ '' {'']
     @ map ts_value_member (value_fields n)
     @ [''}'']"

definition ts_value_class :: "ValueNode \<Rightarrow> string list" where
  "ts_value_class n =
     ['''',
      ''export class '' @ value_name n @ ''Impl implements '' @ value_name n @ '' {'']
     @ map ts_value_class_member (value_fields n)
     @ ['''', ''  constructor(data: '' @ value_name n @ '') {'']
     @ map ts_ctor_line (value_fields n)
     @ [''  }'',
        '''',
        ''  equals(other: '' @ value_name n @ ''): boolean {'',
        ''    return '' @ ts_equals_expr (value_fields n) @ '';'',
        ''  }'',
        ''}'']"

definition ts_value_lines :: "ValueNode \<Rightarrow> CodeGenOptions \<Rightarrow> string list" where
  "ts_value_lines n options =
     (if includeComments options then ts_value_comment n else [])
     @ (if generateInterfaces options then ts_value_interface n else [])
     @ (if generateClasses options then ts_value_class n else [])"

definition ts_generateValueObject :: "ValueNode \<Rightarrow> CodeGenOptions \<Rightarrow> string" where
  "ts_generateValueObject n options = join nl (ts_value_lines n options)"

text \<open>The enumeration: a discriminated union when some variant has a payload.\<close>

definition ts_union_case :: "nat \<Rightarrow> nat \<times> EnumVariant \<Rightarrow> string" where
  "ts_union_case len iv =
     (let index = fst iv; variant = snd iv;
          separator = (if index = len - 1 then '';'' else '''')
      in case variant_payload variant of
           None \<Rightarrow> ''  | { type: '' @ sq @ variant_name variant @ sq @ '' }'' @ separator
         | Some p \<Rightarrow>
             if p = [] then ''  | { type: '' @ sq @ variant_name variant @ sq @ '' }'' @ separator
             else ''  | { type: '' @ sq @ variant_name variant @ sq @ ''; value: ''
                    @ mapTypeToTS p @ '' }'' @ separator)"

definition ts_enum_member :: "nat \<Rightarrow> nat \<times> EnumVariant \<Rightarrow> string" where
  "ts_enum_member len iv =
     (let index = fst iv; variant = snd iv;
          comma = (if index < len - 1 then '','' else '''')
      in ''  '' @ variant_name variant @ '' = '' @ sq @ variant_name variant @ sq @ comma)"

definition ts_enum_comment :: "EnumNode \<Rightarrow> CodeGenOptions \<Rightarrow> string list" where
  "ts_enum_comment n options =
     (if includeComments options
      then [''/**'', '' * Enum: '' @ enum_name n, '' */'']
      else [])"

definition ts_enum_lines :: "EnumNode \<Rightarrow> CodeGenOptions \<Rightarrow> string list" where
  "ts_enum_lines n options =
     ts_enum_comment n options
     @ (let hasPayloads = list_ex (\<lambda>v. truthy (variant_payload v)) (enum_variants n)
        in if hasPayloads
           then [''export type '' @ enum_name n @ '' ='']
             @ map (ts_union_case (length (enum_variants n))) (indexed (enum_variants n))
           else [''export enum '' @ enum_name n @ '' {'']
             @ map (ts_enum_member (length (enum_variants n))) (indexed (enum_variants n))
             @ [''}''])"

definition ts_generateEnum :: "EnumNode \<Rightarrow> CodeGenOptions \<Rightarrow> string" where
  "ts_generateEnum n options = join nl (ts_enum_lines n options)"

text \<open>The aggregate: an interface with the root and one array per resolved member.\<close>

definition aggregate_doc_comment :: "AggregateNode \<Rightarrow> Nodes \<Rightarrow> string list" where
  "aggregate_doc_comment n ns =
     [''/**'', '' * Aggregate: '' @ aggregate_name n]
     @ (case lookup_node ns (rootId n) of
          None \<Rightarrow> []
        | Some rootNode \<Rightarrow> ['' * Root Entity: '' @ node_name rootNode])
     @ (if length (invariants n) > 0
        then ['' * '', '' * Invariants:''] @ map (\<lambda>inv. '' * - '' @ inv) (invariants n)
        else [])
     @ ['' */'']"

definition ts_aggregate_lines :: "AggregateNode \<Rightarrow> Nodes \<Rightarrow> CodeGenOptions \<Rightarrow> string list" where
  "ts_aggregate_lines n ns options =
     (if includeComments options then aggregate_doc_comment n ns else [])
     @ (let rootNode = lookup_node ns (rootId n);
            memberNodes = List.map_filter (lookup_node ns) (memberIds n)
        in [''export interface '' @ aggregate_name n @ ''Aggregate {'']
          @ (case rootNode of None \<Rightarrow> [] | Some r \<Rightarrow> [''  root: '' @ node_name r @ '';''])
          @ map (\<lambda>member. ''  '' @ toLowerCase (node_name member) @ ''s: ''
                   @ node_name member @ ''[];'') memberNodes
          @ [''}''])"

definition ts_generateAggregate :: "AggregateNode \<Rightarrow> Nodes \<Rightarrow> CodeGenOptions \<Rightarrow> string" where
  "ts_generateAggregate n ns options = join nl (ts_aggregate_lines n ns options)"

section \<open>The Java backend\<close>

definition java_typeMap :: "(string \<times> string) list" where
  "java_typeMap =
     [(''string'', ''String''), (''String'', ''String''),
      (''int'', ''int''), (''integer'', ''int''),
      (''Int'', ''Integer''), (''Integer'', ''Integer''),
      (''float'', ''float''), (''Float'', ''Float''),
      (''double'', ''double''), (''Double'', ''Double''),
      (''number'', ''double''), (''Number'', ''Double''),
      (''boolean'', ''boolean''), (''Boolean'', ''Boolean''),
      (''bool'', ''boolean''), (''Bool'', ''Boolean''),
      (''date'', ''LocalDate''), (''Date'', ''LocalDate''),
      (''datetime'', ''LocalDateTime''), (''DateTime'', ''LocalDateTime''),
      (''uuid'', ''UUID''), (''UUID'', ''UUID'')]"

definition mapTypeToJava :: "string \<Rightarrow> string" where
  "mapTypeToJava t = type_or_name java_typeMap t"

text \<open>\<open>options.packageName || 'com.example.domain'\<close>.\<close>

definition java_package :: "CodeGenOptions \<Rightarrow> string" where
  "java_package options = or_default (packageName options) ''com.example.domain''"

definition java_getter :: "Field \<Rightarrow> string list" where
  "java_getter f =
     ['''',
      ''    public '' @ mapTypeToJava (field_type f) @ '' get'' @ capitalize (field_name f)
        @ ''() {'',
      ''        return '' @ field_name f @ '';'',
      ''    }'']"

definition java_setter :: "Field \<Rightarrow> string list" where
  "java_setter f =
     ['''',
      ''    public void set'' @ capitalize (field_name f) @ ''('' @ mapTypeToJava (field_type f)
        @ '' '' @ field_name f @ '') {'',
      ''        this.'' @ field_name f @ '' = '' @ field_name f @ '';'',
      ''    }'']"

definition java_entity_lines :: "EntityNode \<Rightarrow> CodeGenOptions \<Rightarrow> string list" where
  "java_entity_lines n options =
     [''package '' @ java_package options @ '';'', '''',
      ''import java.util.UUID;'', ''import java.util.Objects;'', '''']
     @ (if includeComments options
        then [''/**'', '' * Entity: '' @ entity_name n,
              '' * An entity with a unique identity'', '' */'']
        else [])
     @ [''public class '' @ entity_name n @ '' {'', '''', ''    private final UUID id;'']
     @ map (\<lambda>f. ''    private '' @ mapTypeToJava (field_type f) @ '' '' @ field_name f @ '';'')
         (entity_fields n)
     @ ['''',
        ''    public '' @ entity_name n @ ''() {'',
        ''        this.id = UUID.randomUUID();'',
        ''    }'',
        '''',
        ''    public '' @ entity_name n @ ''(UUID id) {'',
        ''        this.id = id;'',
        ''    }'',
        '''',
        ''    public UUID getId() {'',
        ''        return id;'',
        ''    }'']
     @ concat (map (\<lambda>f. java_getter f @ java_setter f) (entity_fields n))
     @ ['''',
        ''    @Override'',
        ''    public boolean equals(Object o) {'',
        ''        if (this == o) return true;'',
        ''        if (o == null || getClass() != o.getClass()) return false;'',
        ''        '' @ entity_name n @ '' that = ('' @ entity_name n @ '') o;'',
        ''        return Objects.equals(id, that.id);'',
        ''    }'',
        '''',
        ''    @Override'',
        ''    public int hashCode() {'',
        ''        return Objects.hash(id);'',
        ''    }'',
        ''}'']"

definition java_generateEntity :: "EntityNode \<Rightarrow> CodeGenOptions \<Rightarrow> string" where
  "java_generateEntity n options = join nl (java_entity_lines n options)"

definition java_equals_term :: "Field \<Rightarrow> string" where
  "java_equals_term f = ''Objects.equals('' @ field_name f @ '', that.'' @ field_name f @ '')''"

definition java_equals_expr :: "Field list \<Rightarrow> string" where
  "java_equals_expr fs =
     (let e = join '' && '' (map java_equals_term fs) in if e = [] then ''true'' else e)"

definition java_value_member :: "Field \<Rightarrow> string" where
  "java_value_member f =
     ''    private final '' @ mapTypeToJava (field_type f) @ '' '' @ field_name f @ '';''"

definition java_value_lines :: "ValueNode \<Rightarrow> CodeGenOptions \<Rightarrow> string list" where
  "java_value_lines n options =
     [''package '' @ java_package options @ '';'', '''', ''import java.util.Objects;'', '''']
     @ (if includeComments options
        then [''/**'', '' * Value Object: '' @ value_name n,
              '' * An immutable value type identified by its attributes'', '' */'']
        else [])
     @ [''public final class '' @ value_name n @ '' {'', '''']
     @ map java_value_member (value_fields n)
     @ ['''',
        ''    public '' @ value_name n @ ''(''
          @ join '', '' (map (\<lambda>f. mapTypeToJava (field_type f) @ '' '' @ field_name f)
               (value_fields n))
          @ '') {'']
     @ map (\<lambda>f. ''        this.'' @ field_name f @ '' = '' @ field_name f @ '';'') (value_fields n)
     @ [''    }'']
     @ concat (map java_getter (value_fields n))
     @ ['''',
        ''    @Override'',
        ''    public boolean equals(Object o) {'',
        ''        if (this == o) return true;'',
        ''        if (o == null || getClass() != o.getClass()) return false;'',
        ''        '' @ value_name n @ '' that = ('' @ value_name n @ '') o;'',
        ''        return '' @ java_equals_expr (value_fields n) @ '';'',
        ''    }'',
        '''',
        ''    @Override'',
        ''    public int hashCode() {'',
        ''        return Objects.hash('' @ join '', '' (map field_name (value_fields n)) @ '');'',
        ''    }'',
        ''}'']"

definition java_generateValueObject :: "ValueNode \<Rightarrow> CodeGenOptions \<Rightarrow> string" where
  "java_generateValueObject n options = join nl (java_value_lines n options)"

definition java_enum_constant :: "nat \<Rightarrow> nat \<times> EnumVariant \<Rightarrow> string" where
  "java_enum_constant len iv =
     (let index = fst iv; variant = snd iv;
          comma = (if index < len - 1 then '','' else '';'')
      in ''    '' @ toUpperCase (variant_name variant) @ comma)"

definition java_enum_lines :: "EnumNode \<Rightarrow> CodeGenOptions \<Rightarrow> string list" where
  "java_enum_lines n options =
     [''package '' @ java_package options @ '';'', '''']
     @ (if includeComments options
        then [''/**'', '' * Enum: '' @ enum_name n, '' */'']
        else [])
     @ [''public enum '' @ enum_name n @ '' {'']
     @ map (java_enum_constant (length (enum_variants n))) (indexed (enum_variants n))
     @ [''}'']"

definition java_generateEnum :: "EnumNode \<Rightarrow> CodeGenOptions \<Rightarrow> string" where
  "java_generateEnum n options = join nl (java_enum_lines n options)"

text \<open>The lines one member id contributes: none when the id does not resolve.\<close>

definition for_member ::
  "Nodes \<Rightarrow> (DomainNode \<Rightarrow> string list) \<Rightarrow> string \<Rightarrow> string list" where
  "for_member ns body i =
     (case lookup_node ns i of None \<Rightarrow> [] | Some memberNode \<Rightarrow> body memberNode)"

definition java_member_field :: "DomainNode \<Rightarrow> string list" where
  "java_member_field m =
     [''    private final List<'' @ node_name m @ ''> '' @ toLowerCase (node_name m) @ ''s;'']"

definition java_member_init :: "DomainNode \<Rightarrow> string list" where
  "java_member_init m =
     [''        this.'' @ toLowerCase (node_name m) @ ''s = new ArrayList<>();'']"

definition java_member_methods :: "DomainNode \<Rightarrow> string list" where
  "java_member_methods m =
     ['''',
      ''    public List<'' @ node_name m @ ''> get'' @ capitalize (node_name m) @ ''s() {'',
      ''        return new ArrayList<>('' @ toLowerCase (node_name m) @ ''s);'',
      ''    }'',
      '''',
      ''    public void add'' @ node_name m @ ''('' @ node_name m @ '' item) {'',
      ''        this.'' @ toLowerCase (node_name m) @ ''s.add(item);'',
      ''    }'']"

definition java_aggregate_lines ::
  "AggregateNode \<Rightarrow> Nodes \<Rightarrow> CodeGenOptions \<Rightarrow> string list" where
  "java_aggregate_lines n ns options =
     [''package '' @ java_package options @ '';'', '''',
      ''import java.util.List;'', ''import java.util.ArrayList;'', '''']
     @ (if includeComments options then aggregate_doc_comment n ns else [])
     @ (let rootNode = lookup_node ns (rootId n)
        in [''public class '' @ aggregate_name n @ ''Aggregate {'', '''']
          @ (case rootNode of None \<Rightarrow> []
             | Some r \<Rightarrow> [''    private final '' @ node_name r @ '' root;''])
          @ concat (map (for_member ns java_member_field) (memberIds n))
          @ ['''',
             ''    public '' @ aggregate_name n @ ''Aggregate(''
               @ (case rootNode of None \<Rightarrow> '''' | Some r \<Rightarrow> node_name r @ '' root'') @ '') {'']
          @ (case rootNode of None \<Rightarrow> [] | Some r \<Rightarrow> [''        this.root = root;''])
          @ concat (map (for_member ns java_member_init) (memberIds n))
          @ [''    }'', '''']
          @ (case rootNode of None \<Rightarrow> []
             | Some r \<Rightarrow> [''    public '' @ node_name r @ '' getRoot() {'',
                          ''        return root;'',
                          ''    }''])
          @ concat (map (for_member ns java_member_methods) (memberIds n))
          @ [''}''])"

definition java_generateAggregate ::
  "AggregateNode \<Rightarrow> Nodes \<Rightarrow> CodeGenOptions \<Rightarrow> string" where
  "java_generateAggregate n ns options = join nl (java_aggregate_lines n ns options)"

section \<open>The C# backend\<close>

definition csharp_typeMap :: "(string \<times> string) list" where
  "csharp_typeMap =
     [(''string'', ''string''), (''String'', ''string''),
      (''int'', ''int''), (''integer'', ''int''),
      (''Int'', ''int''), (''Integer'', ''int''),
      (''float'', ''float''), (''Float'', ''float''),
      (''double'', ''double''), (''Double'', ''double''),
      (''number'', ''double''), (''Number'', ''double''),
      (''boolean'', ''bool''), (''Boolean'', ''bool''),
      (''bool'', ''bool''), (''Bool'', ''bool''),
      (''date'', ''DateOnly''), (''Date'', ''DateOnly''),
      (''datetime'', ''DateTime''), (''DateTime'', ''DateTime''),
      (''uuid'', ''Guid''), (''UUID'', ''Guid'')]"

definition mapTypeToCSharp :: "string \<Rightarrow> string" where
  "mapTypeToCSharp t = type_or_name csharp_typeMap t"

text \<open>\<open>options.namespace || 'Domain'\<close>.\<close>

definition csharp_namespace :: "CodeGenOptions \<Rightarrow> string" where
  "csharp_namespace options = or_default (namespace options) ''Domain''"

definition csharp_property :: "Field \<Rightarrow> string" where
  "csharp_property f =
     ''    public'' @ (if field_optional f then '''' else '' required'') @ '' ''
       @ mapTypeToCSharp (field_type f) @ (if field_optional f then ''?'' else '''') @ '' ''
       @ capitalize (field_name f) @ '' { get; set; }''"

definition csharp_entity_lines :: "EntityNode \<Rightarrow> CodeGenOptions \<Rightarrow> string list" where
  "csharp_entity_lines n options =
     [''namespace '' @ csharp_namespace options @ '';'', '''']
     @ (if includeComments options
        then [''/// <summary>'', ''/// Entity: '' @ entity_name n,
              ''/// An entity with a unique identity'', ''/// </summary>'']
        else [])
     @ [''public class '' @ entity_name n, ''{'',
        ''    public Guid Id { get; init; } = Guid.NewGuid();'', '''']
     @ map csharp_property (entity_fields n)
     @ ['''',
        ''    public override bool Equals(object? obj)'',
        ''    {'',
        ''        if (obj is not '' @ entity_name n @ '' other) return false;'',
        ''        return Id == other.Id;'',
        ''    }'',
        '''',
        ''    public override int GetHashCode() => Id.GetHashCode();'',
        ''}'']"

definition csharp_generateEntity :: "EntityNode \<Rightarrow> CodeGenOptions \<Rightarrow> string" where
  "csharp_generateEntity n options = join nl (csharp_entity_lines n options)"

text \<open>The value object is a positional \<open>record\<close> over its fields.\<close>

definition csharp_record_param :: "Field \<Rightarrow> string" where
  "csharp_record_param f =
     mapTypeToCSharp (field_type f) @ (if field_optional f then ''?'' else '''') @ '' ''
       @ capitalize (field_name f)"

definition csharp_value_lines :: "ValueNode \<Rightarrow> CodeGenOptions \<Rightarrow> string list" where
  "csharp_value_lines n options =
     [''namespace '' @ csharp_namespace options @ '';'', '''']
     @ (if includeComments options
        then [''/// <summary>'', ''/// Value Object: '' @ value_name n,
              ''/// An immutable value type identified by its attributes'', ''/// </summary>'']
        else [])
     @ [''public record '' @ value_name n @ ''(''
          @ join '', '' (map csharp_record_param (value_fields n)) @ '');'']"

definition csharp_generateValueObject :: "ValueNode \<Rightarrow> CodeGenOptions \<Rightarrow> string" where
  "csharp_generateValueObject n options = join nl (csharp_value_lines n options)"

definition csharp_enum_member :: "nat \<Rightarrow> nat \<times> EnumVariant \<Rightarrow> string" where
  "csharp_enum_member len iv =
     (let index = fst iv; variant = snd iv;
          comma = (if index < len - 1 then '','' else '''')
      in ''    '' @ variant_name variant @ comma)"

definition csharp_enum_lines :: "EnumNode \<Rightarrow> CodeGenOptions \<Rightarrow> string list" where
  "csharp_enum_lines n options =
     [''namespace '' @ csharp_namespace options @ '';'', '''']
     @ (if includeComments options
        then [''/// <summary>'', ''/// Enum: '' @ enum_name n, ''/// </summary>'']
        else [])
     @ [''public enum '' @ enum_name n, ''{'']
     @ map (csharp_enum_member (length (enum_variants n))) (indexed (enum_variants n))
     @ [''}'']"

definition csharp_generateEnum :: "EnumNode \<Rightarrow> CodeGenOptions \<Rightarrow> string" where
  "csharp_generateEnum n options = join nl (csharp_enum_lines n options)"

definition csharp_aggregate_comment :: "AggregateNode \<Rightarrow> Nodes \<Rightarrow> string list" where
  "csharp_aggregate_comment n ns =
     [''/// <summary>'', ''/// Aggregate: '' @ aggregate_name n]
     @ (case lookup_node ns (rootId n) of
          None \<Rightarrow> []
        | Some rootNode \<Rightarrow> [''/// Root Entity: '' @ node_name rootNode])
     @ (if length (invariants n) > 0
        then [''/// '', ''/// Invariants:''] @ map (\<lambda>inv. ''/// - '' @ inv) (invariants n)
        else [])
     @ [''/// </summary>'']"

definition csharp_member_field :: "DomainNode \<Rightarrow> string list" where
  "csharp_member_field m =
     [''    private readonly List<'' @ node_name m @ ''> _'' @ toLowerCase (node_name m)
        @ ''s = new();'']"

definition csharp_member_property :: "DomainNode \<Rightarrow> string list" where
  "csharp_member_property m =
     [''    public IReadOnlyList<'' @ node_name m @ ''> '' @ node_name m @ ''s => _''
        @ toLowerCase (node_name m) @ ''s.AsReadOnly();'']"

definition csharp_member_methods :: "DomainNode \<Rightarrow> string list" where
  "csharp_member_methods m =
     ['''',
      ''    public void Add'' @ node_name m @ ''('' @ node_name m @ '' item)'',
      ''    {'',
      ''        // TODO: Validate invariants before adding'',
      ''        _'' @ toLowerCase (node_name m) @ ''s.Add(item);'',
      ''    }'',
      '''',
      ''    public bool Remove'' @ node_name m @ ''('' @ node_name m @ '' item)'',
      ''    {'',
      ''        return _'' @ toLowerCase (node_name m) @ ''s.Remove(item);'',
      ''    }'']"

definition csharp_aggregate_lines ::
  "AggregateNode \<Rightarrow> Nodes \<Rightarrow> CodeGenOptions \<Rightarrow> string list" where
  "csharp_aggregate_lines n ns options =
     [''namespace '' @ csharp_namespace options @ '';'', '''']
     @ (if includeComments options then csharp_aggregate_comment n ns else [])
     @ (let rootNode = lookup_node ns (rootId n)
        in [''public class '' @ aggregate_name n @ ''Aggregate'', ''{'']
          @ concat (map (for_member ns csharp_member_field) (memberIds n))
          @ (if length (memberIds n) > 0 then [''''] else [])
          @ (case rootNode of None \<Rightarrow> []
             | Some r \<Rightarrow> [''    public required '' @ node_name r @ '' Root { get; init; }''])
          @ concat (map (for_member ns csharp_member_property) (memberIds n))
          @ concat (map (for_member ns csharp_member_methods) (memberIds n))
          @ [''}''])"

definition csharp_generateAggregate ::
  "AggregateNode \<Rightarrow> Nodes \<Rightarrow> CodeGenOptions \<Rightarrow> string" where
  "csharp_generateAggregate n ns options = join nl (csharp_aggregate_lines n ns options)"

section \<open>The exported generators\<close>

text \<open>
  A generator runs on a state that holds the context object it was handed and the array
  it fills (\<open>lines\<close> or \<open>files\<close>); each statement of the source is a step on that
  state, each \<open>forEach\<close> a \<open>fold\<close> of its body over the entries.
\<close>

record 'a gen_state =
  gs_context :: ContextData
  gs_out :: "'a list"

definition push :: "'a \<Rightarrow> 'a gen_state \<Rightarrow> 'a gen_state" where
  "push x s = s\<lparr>gs_out := gs_out s @ [x]\<rparr>"

definition init_state :: "ContextData \<Rightarrow> 'a gen_state" where
  "init_state c = \<lparr>gs_context = c, gs_out = []\<rparr>"

subsection \<open>generateTypeScript\<close>

text \<open>\<open>now\<close> is what \<open>new Date().toISOString()\<close> returns when the generator runs.\<close>

definition ts_header :: "string \<Rightarrow> ContextData \<Rightarrow> string list" where
  "ts_header now c =
     [''/**'', '' * Generated by SketchDDD'', '' * Context: '' @ context_name c,
      '' * Generated at: '' @ now, '' */'', '''']"

text \<open>The code of one node, by its kind.\<close>

fun ts_item :: "ContextData \<Rightarrow> CodeGenOptions \<Rightarrow> DomainNode \<Rightarrow> string" where
  "ts_item c options (Enum n) = ts_generateEnum n options"
| "ts_item c options (Value n) = ts_generateValueObject n options"
| "ts_item c options (Entity n) = ts_generateEntity n (context_morphisms c) (nodes c) options"
| "ts_item c options (Aggregate n) = ts_generateAggregate n (nodes c) options"

text \<open>The body of each of the four loops: push the node's code, then an empty line.\<close>

definition ts_step ::
  "CodeGenOptions \<Rightarrow> string \<times> NodeData \<Rightarrow> string gen_state \<Rightarrow> string gen_state" where
  "ts_step options e s = push '''' (push (ts_item (gs_context s) options (node (snd e))) s)"

definition of_kind :: "Kind \<Rightarrow> string \<times> NodeData \<Rightarrow> bool" where
  "of_kind k e = (kind (node (snd e)) = k)"

definition generateTypeScript_run ::
  "string \<Rightarrow> CodeGenOptions \<Rightarrow> string gen_state \<Rightarrow> string gen_state \<times> GeneratedFile" where
  "generateTypeScript_run now options s0 =
     (let s1 = (if includeComments options
                then fold push (ts_header now (gs_context s0)) s0 else s0);
          nodeEntries = nodes (gs_context s1);
          s2 = fold (ts_step options) (filter (of_kind KEnum) nodeEntries) s1;
          s3 = fold (ts_step options) (filter (of_kind KValue) nodeEntries) s2;
          s4 = fold (ts_step options) (filter (of_kind KEntity) nodeEntries) s3;
          s5 = fold (ts_step options) (filter (of_kind KAggregate) nodeEntries) s4
      in (s5, \<lparr>filename = remove_spaces (context_name (gs_context s5)) @ ''.ts'',
               content = trim (join nl (gs_out s5)),
               file_language = TypeScript\<rparr>))"

definition generateTypeScript :: "string \<Rightarrow> ContextData \<Rightarrow> CodeGenOptions \<Rightarrow> GeneratedFile" where
  "generateTypeScript now c options = snd (generateTypeScript_run now options (init_state c))"

subsection \<open>generateJava\<close>

fun java_content :: "Nodes \<Rightarrow> CodeGenOptions \<Rightarrow> DomainNode \<Rightarrow> string" where
  "java_content ns options (Entity n) = java_generateEntity n options"
| "java_content ns options (Value n) = java_generateValueObject n options"
| "java_content ns options (Enum n) = java_generateEnum n options"
| "java_content ns options (Aggregate n) = java_generateAggregate n ns options"

fun java_filename :: "DomainNode \<Rightarrow> string" where
  "java_filename (Aggregate n) = aggregate_name n @ ''Aggregate.java''"
| "java_filename d = node_name d @ ''.java''"

text \<open>The loop body: a file is pushed when both its content and its name are non-empty.\<close>

definition java_step ::
  "CodeGenOptions \<Rightarrow> string \<times> NodeData \<Rightarrow> GeneratedFile gen_state \<Rightarrow> GeneratedFile gen_state" where
  "java_step options e s =
     (let c = java_content (nodes (gs_context s)) options (node (snd e));
          f = java_filename (node (snd e))
      in if c \<noteq> [] \<and> f \<noteq> []
         then push \<lparr>filename = f, content = c, file_language = Java\<rparr> s
         else s)"

definition generateJava_run ::
  "CodeGenOptions \<Rightarrow> GeneratedFile gen_state \<Rightarrow> GeneratedFile gen_state" where
  "generateJava_run options s = fold (java_step options) (nodes (gs_context s)) s"

definition generateJava :: "ContextData \<Rightarrow> CodeGenOptions \<Rightarrow> GeneratedFile list" where
  "generateJava c options = gs_out (generateJava_run options (init_state c))"

subsection \<open>generateCSharp\<close>

fun csharp_content :: "Nodes \<Rightarrow> CodeGenOptions \<Rightarrow> DomainNode \<Rightarrow> string" where
  "csharp_content ns options (Entity n) = csharp_generateEntity n options"
| "csharp_content ns options (Value n) = csharp_generateValueObject n options"
| "csharp_content ns options (Enum n) = csharp_generateEnum n options"
| "csharp_content ns options (Aggregate n) = csharp_generateAggregate n ns options"

fun csharp_filename :: "DomainNode \<Rightarrow> string" where
  "csharp_filename (Aggregate n) = aggregate_name n @ ''Aggregate.cs''"
| "csharp_filename d = node_name d @ ''.cs''"

definition csharp_step ::
  "CodeGenOptions \<Rightarrow> string \<times> NodeData \<Rightarrow> GeneratedFile gen_state \<Rightarrow> GeneratedFile gen_state" where
  "csharp_step options e s =
     (let c = csharp_content (nodes (gs_context s)) options (node (snd e));
          f = csharp_filename (node (snd e))
      in if c \<noteq> [] \<and> f \<noteq> []
         then push \<lparr>filename = f, content = c, file_language = CSharp\<rparr> s
         else s)"

definition generateCSharp_run ::
  "CodeGenOptions \<Rightarrow> GeneratedFile gen_state \<Rightarrow> GeneratedFile gen_state" where
  "generateCSharp_run options s = fold (csharp_step options) (nodes (gs_context s)) s"

definition generateCSharp :: "ContextData \<Rightarrow> CodeGenOptions \<Rightarrow> GeneratedFile list" where
  "generateCSharp c options = gs_out (generateCSharp_run options (init_state c))"

subsection \<open>generateCode\<close>

text \<open>
  \<open>Partial<CodeGenOptions>\<close>: \<open>None\<close> is a property the caller left out. The defaults
  are spread first, the caller's properties over them.
\<close>

record PartialOptions =
  p_language :: "TargetLanguage option"
  p_includeComments :: "bool option"
  p_generateInterfaces :: "bool option"
  p_generateClasses :: "bool option"
  p_namespace :: "string option"
  p_packageName :: "string option"

definition no_options :: PartialOptions where
  "no_options = \<lparr>p_language = None, p_includeComments = None, p_generateInterfaces = None,
     p_generateClasses = None, p_namespace = None, p_packageName = None\<rparr>"

definition override :: "'a \<Rightarrow> 'a option \<Rightarrow> 'a" where
  "override d v = (case v of None \<Rightarrow> d | Some x \<Rightarrow> x)"

definition defaultOptions :: "TargetLanguage \<Rightarrow> PartialOptions \<Rightarrow> CodeGenOptions" where
  "defaultOptions lang p =
     \<lparr>language = override lang (p_language p),
      includeComments = override True (p_includeComments p),
      generateInterfaces = override True (p_generateInterfaces p),
      generateClasses = override True (p_generateClasses p),
      namespace = Some (override ''Domain'' (p_namespace p)),
      packageName = Some (override ''com.example.domain'' (p_packageName p))\<rparr>"

text \<open>
  The switch is over the three members of \<open>TargetLanguage\<close>; its \<open>default\<close> branch, which
  throws, is not reached by a value of that type. The result pairs the context object
  after the call with the files returned.
\<close>

definition generateCode_run ::
  "string \<Rightarrow> ContextData \<Rightarrow> TargetLanguage \<Rightarrow> PartialOptions
     \<Rightarrow> ContextData \<times> GeneratedFile list" where
  "generateCode_run now c lang p =
     (let options = defaultOptions lang p
      in case lang of
           TypeScript \<Rightarrow>
             (let r = generateTypeScript_run now options (init_state c)
              in (gs_context (fst r), [snd r]))
         | Java \<Rightarrow>
             (let s = generateJava_run options (init_state c) in (gs_context s, gs_out s))
         | CSharp \<Rightarrow>
             (let s = generateCSharp_run options (init_state c) in (gs_context s, gs_out s)))"

definition generateCode ::
  "string \<Rightarrow> ContextData \<Rightarrow> TargetLanguage \<Rightarrow> PartialOptions \<Rightarrow> GeneratedFile list" where
  "generateCode now c lang p = snd (generateCode_run now c lang p)"

section \<open>The domain store\<close>

datatype ContextMapPattern =
  Partnership | SharedKernel | CustomerSupplier | Conformist
| AntiCorruptionLayer | OpenHostService | PublishedLanguage | SeparateWays

record ObjectMapping =
  mapping_sourceId :: string
  mapping_targetId :: string

record ContextMap =
  contextmap_id :: string
  sourceContextId :: string
  targetContextId :: string
  pattern :: ContextMapPattern
  mappings :: "ObjectMapping list"

text \<open>The store keeps the last validation result without looking into it.\<close>

typedecl ValidationResult

record DomainState =
  activeContextId :: "string option"
  contexts :: "(string \<times> ContextData) list"
  contextMaps :: "ContextMap list"
  selectedNodeIds :: "string list"
  selectedEdgeIds :: "string list"
  validationResult :: "ValidationResult option"
  isPaletteOpen :: bool
  isPropertiesPanelOpen :: bool

text \<open>The undo history lives beside the state, in a module variable.\<close>

record HistoryState =
  past :: "DomainState list"
  future :: "DomainState list"

record Store =
  state :: DomainState
  history :: HistoryState

definition MAX_HISTORY :: nat where
  "MAX_HISTORY = 50"

text \<open>\<open>saveToHistory\<close>: push a copy of the state, drop the oldest entry beyond
  \<open>MAX_HISTORY\<close>, and clear the redo list.\<close>

definition saveToHistory :: "DomainState \<Rightarrow> HistoryState \<Rightarrow> HistoryState" where
  "saveToHistory s h =
     (let p = past h @ [s];
          p' = (if length p > MAX_HISTORY then tl p else p)
      in \<lparr>past = p', future = []\<rparr>)"

text \<open>\<open>delete obj[key]\<close> and the assignment to an entry of a \<open>Record\<close>, which keeps the
  entry's place.\<close>

definition delete_key :: "string \<Rightarrow> (string \<times> 'a) list \<Rightarrow> (string \<times> 'a) list" where
  "delete_key k xs = filter (\<lambda>e. fst e \<noteq> k) xs"

definition set_key :: "string \<Rightarrow> 'a \<Rightarrow> (string \<times> 'a) list \<Rightarrow> (string \<times> 'a) list" where
  "set_key k v xs = AList.update k v xs"

definition deleteContext :: "string \<Rightarrow> Store \<Rightarrow> Store" where
  "deleteContext contextId st =
     (let h = saveToHistory (state st) (history st);
          s = state st;
          cs = delete_key contextId (contexts s);
          ms = filter (\<lambda>m. sourceContextId m \<noteq> contextId \<and> targetContextId m \<noteq> contextId)
                 (contextMaps s);
          active = (if activeContextId s = Some contextId
                    then (case map fst cs of [] \<Rightarrow> None | k # ks \<Rightarrow> Some k)
                    else activeContextId s)
      in \<lparr>state = s\<lparr>activeContextId := active, contexts := cs, contextMaps := ms\<rparr>,
          history = h\<rparr>)"

text \<open>
  \<open>deleteNode\<close>, as the store it leaves behind. \<open>state.contexts[contextId]\<close> is \<open>undefined\<close>
  for an id that is neither a key of \<open>contexts\<close> nor the name of a property that every
  object inherits; the guard \<open>if (context)\<close> then skips the body. For an id that is no key
  but such an inherited name (\<open>inherited_text\<close> lists them), the guard passes with the
  inherited value, whose \<open>nodes\<close> is \<open>undefined\<close>, and \<open>delete context.nodes[nodeId]\<close>
  throws a \<open>TypeError\<close> out of the recipe: the state is not replaced, and the history holds
  the copy that \<open>saveToHistory\<close> had pushed before. In both cases the store after the call
  is the one of the first branch below; \<open>deleteNode_throws\<close> tells the second case.
\<close>

definition deleteNode_throws :: "string \<Rightarrow> Store \<Rightarrow> bool" where
  "deleteNode_throws contextId st
     = (map_of (contexts (state st)) contextId = None \<and> inherited_text contextId \<noteq> None)"

definition deleteNode :: "string \<Rightarrow> string \<Rightarrow> Store \<Rightarrow> Store" where
  "deleteNode contextId nodeId st =
     (let h = saveToHistory (state st) (history st);
          s = state st
      in case map_of (contexts s) contextId of
           None \<Rightarrow> \<lparr>state = s, history = h\<rparr>
         | Some c \<Rightarrow>
             (let c' = c\<lparr>nodes := delete_key nodeId (nodes c),
                        context_morphisms :=
                          filter (\<lambda>m. sourceId m \<noteq> nodeId \<and> targetId m \<noteq> nodeId)
                            (context_morphisms c)\<rparr>
              in \<lparr>state = s\<lparr>contexts := set_key contextId c' (contexts s),
                     selectedNodeIds := filter (\<lambda>i. i \<noteq> nodeId) (selectedNodeIds s)\<rparr>,
                  history = h\<rparr>))"

section \<open>The name index and the morphism reference pass\<close>

text \<open>
  The validator is the Rust core behind the WASM bridge; the web sources hold only the
  shape of its result (\<open>ValidationResult\<close>, \<open>ValidationIssue\<close>) and the decision records
  that describe it. The definitions of this section are therefore written from the
  specification.
\<close>

text \<open>Modelled from the spec: a morphism \<open>name: source \<rightarrow> target\<close> of the validator's model
  (the Rust core is not among the sources), which refers to its objects by name.\<close>

record SketchMorphism =
  sm_name :: string
  sm_source :: string
  sm_target :: string
  sm_cardinality :: Cardinality

text \<open>Modelled from the spec: the validator's model of a bounded context (the Rust core is
  not among the sources): its name, its named objects with their kind in declaration
  order, and its morphisms.\<close>

record Sketch =
  sketch_name :: string
  sketch_objects :: "(string \<times> Kind) list"
  sketch_morphisms :: "SketchMorphism list"

text \<open>Modelled from the spec: \<open>allNames()\<close> of the name index, which the sources do not
  contain: the names in insertion order.\<close>

definition allNames :: "Sketch \<Rightarrow> string list" where
  "allNames sk = map fst (sketch_objects sk)"

text \<open>Modelled from the spec: \<open>resolve(name)\<close> of the name index, which the sources do not
  contain.\<close>

definition resolve :: "Sketch \<Rightarrow> string \<Rightarrow> Kind option" where
  "resolve sk name = map_of (sketch_objects sk) name"

text \<open>Modelled from the spec: the cells of one row of the edit distance matrix, which the
  sources do not contain. \<open>lev_cells x ys diag left ups\<close> fills the row of the character
  \<open>x\<close> from the cell to the left, the cell above-left and the cells above.\<close>

fun lev_cells :: "char \<Rightarrow> string \<Rightarrow> nat \<Rightarrow> nat \<Rightarrow> nat list \<Rightarrow> nat list" where
  "lev_cells x (y # ys) diag left (up # ups) =
     (let v = min (min (up + 1) (left + 1)) (diag + (if x = y then 0 else 1))
      in v # lev_cells x ys up v ups)"
| "lev_cells x ys diag left ups = []"

text \<open>Modelled from the spec: one row of the edit distance matrix from the row above it;
  the sources do not contain it.\<close>

fun lev_row :: "string \<Rightarrow> char \<Rightarrow> nat list \<Rightarrow> nat list" where
  "lev_row ys x [] = []"
| "lev_row ys x (p # ps) = (p + 1) # lev_cells x ys p (p + 1) ps"

text \<open>Modelled from the spec: the edit (Levenshtein) distance of two names, which the
  sources do not contain: the last cell of the last row of the matrix.\<close>

definition levenshtein :: "string \<Rightarrow> string \<Rightarrow> nat" where
  "levenshtein xs ys = last (fold (lev_row ys) xs [0 ..< length ys + 1])"

text \<open>Modelled from the spec: the single closest candidate of \<open>nearest\<close>, the first one
  among equally close candidates; the sources do not contain it.\<close>

fun closest :: "string \<Rightarrow> string list \<Rightarrow> string option" where
  "closest name [] = None"
| "closest name (c # cs) =
     (case closest name cs of
        None \<Rightarrow> Some c
      | Some b \<Rightarrow> if levenshtein name c \<le> levenshtein name b then Some c else Some b)"

text \<open>Modelled from the spec: \<open>nearest(name, maxEditDistance)\<close> of the name index, which
  the sources do not contain: the closest candidate, and only when it is within the
  bound.\<close>

definition nearest :: "string list \<Rightarrow> string \<Rightarrow> nat \<Rightarrow> string option" where
  "nearest names name maxEditDistance =
     (case closest name names of
        None \<Rightarrow> None
      | Some c \<Rightarrow> if levenshtein name c \<le> maxEditDistance then Some c else None)"

text \<open>Modelled from the spec: the bound \<open>min(3, ceil(0.3 \<times> len(name)))\<close> under which a
  suggestion is made; the sources do not contain it.\<close>

definition suggestion_bound :: "string \<Rightarrow> nat" where
  "suggestion_bound name = min 3 ((3 * length name + 9) div 10)"

text \<open>Modelled from the spec: the suggestion for an unresolved name, \<open>nearest\<close> under that
  bound; the sources do not contain it.\<close>

definition suggest :: "string list \<Rightarrow> string \<Rightarrow> string option" where
  "suggest names name = nearest names name (suggestion_bound name)"

text \<open>Modelled from the spec: the severities of a diagnostic (the validator's own type is
  not among the sources).\<close>

datatype Severity = Error | Warning | Hint

text \<open>Modelled from the spec: a suggested fix, free text and a replacement (the
  validator's own type is not among the sources).\<close>

record SuggestedFix =
  fix_message :: string
  replacement :: string

text \<open>Modelled from the spec: a diagnostic of the validator, whose own type is not among
  the sources: a severity, a stable code, a message, the labels of the offending places,
  suggested fixes and notes.\<close>

record Diagnostic =
  d_severity :: Severity
  d_code :: string
  d_message :: string
  d_labels :: "string list"
  d_suggestions :: "SuggestedFix list"
  d_notes :: "string list"

text \<open>Modelled from the spec: the range \<open>E0001\<close> to \<open>E0009\<close> of the morphism reference
  pass; the registry of codes is not among the sources.\<close>

definition morphism_reference_codes :: "string list" where
  "morphism_reference_codes =
     [''E0001'', ''E0002'', ''E0003'', ''E0004'', ''E0005'', ''E0006'', ''E0007'', ''E0008'',
      ''E0009'']"

text \<open>Modelled from the spec: the findings of the morphism reference pass, which the
  sources do not contain: every endpoint of a morphism that does not resolve, with the
  morphism it was found in.\<close>

definition unresolved :: "Sketch \<Rightarrow> (string \<times> string) list" where
  "unresolved sk =
     concat (map (\<lambda>m.
         (if resolve sk (sm_source m) = None then [(sm_source m, sm_name m)] else [])
       @ (if resolve sk (sm_target m) = None then [(sm_target m, sm_name m)] else []))
       (sketch_morphisms sk))"

text \<open>Modelled from the spec: the diagnostic for an unresolved name, which the sources do
  not contain: an error of the pass's range whose message names the object; it carries
  \<open>did you mean 'X'?\<close> when the index has a near name and a note with all names
  otherwise.\<close>

definition reference_diagnostic :: "Sketch \<Rightarrow> string \<Rightarrow> string list \<Rightarrow> Diagnostic" where
  "reference_diagnostic sk name where_found =
     \<lparr>d_severity = Error,
      d_code = ''E0001'',
      d_message = ''Unknown object '' @ sq @ name @ sq @ '' referenced in context '' @ sq
        @ sketch_name sk @ sq,
      d_labels = where_found,
      d_suggestions = (case suggest (allNames sk) name of
                 None \<Rightarrow> []
               | Some x \<Rightarrow> [\<lparr>fix_message = ''did you mean '' @ sq @ x @ sq @ ''?'',
                             replacement = x\<rparr>]),
      d_notes = (case suggest (allNames sk) name of
                 None \<Rightarrow> [''available objects: '' @ join '', '' (allNames sk)]
               | Some x \<Rightarrow> [])\<rparr>"

text \<open>Modelled from the spec: the morphism reference pass, which the sources do not
  contain: three or more findings on one name become a single diagnostic with one label
  each, fewer stay one diagnostic each.\<close>

definition morphism_reference_pass :: "Sketch \<Rightarrow> Diagnostic list" where
  "morphism_reference_pass sk =
     concat (map (\<lambda>name.
         (let found = map snd (filter (\<lambda>u. fst u = name) (unresolved sk))
          in if length found \<ge> 3 then [reference_diagnostic sk name found]
             else map (\<lambda>l. reference_diagnostic sk name [l]) found))
       (remdups (map fst (unresolved sk))))"

text \<open>Modelled from the spec: the Levenshtein distance as it is defined, by the
  recurrence on the prefixes of the two strings, which the sources do not contain:
  \<open>lev_matrix a b i j\<close> is the distance between the first \<open>i\<close> characters of \<open>a\<close> and
  the first \<open>j\<close> characters of \<open>b\<close>.\<close>

fun lev_matrix :: "string \<Rightarrow> string \<Rightarrow> nat \<Rightarrow> nat \<Rightarrow> nat" where
  "lev_matrix a b 0 j = j"
| "lev_matrix a b (Suc i) 0 = Suc i"
| "lev_matrix a b (Suc i) (Suc j) =
     min (min (lev_matrix a b i (Suc j) + 1) (lev_matrix a b (Suc i) j + 1))
       (lev_matrix a b i j + (if a ! i = b ! j then 0 else 1))"

section \<open>Deleting a context\<close>

text \<open>A store with two contexts and two context maps, one of which refers to the
  context \<open>c1\<close>.\<close>

definition example_context :: "string \<Rightarrow> string \<Rightarrow> ContextData" where
  "example_context i n = \<lparr>context_id = i, context_name = n, nodes = [], context_morphisms = []\<rparr>"

definition example_map :: "string \<Rightarrow> string \<Rightarrow> string \<Rightarrow> ContextMap" where
  "example_map i src tgt =
     \<lparr>contextmap_id = i, sourceContextId = src, targetContextId = tgt,
      pattern = Conformist, mappings = []\<rparr>"

definition example_store :: Store where
  "example_store =
     \<lparr>state =
        \<lparr>activeContextId = Some ''c1'',
         contexts = [(''c1'', example_context ''c1'' ''Sales''),
                     (''c2'', example_context ''c2'' ''Billing''),
                     (''c3'', example_context ''c3'' ''Shipping'')],
         contextMaps = [example_map ''m1'' ''c1'' ''c2'', example_map ''m2'' ''c2'' ''c3'',
                        example_map ''m3'' ''c3'' ''c1''],
         selectedNodeIds = [], selectedEdgeIds = [], validationResult = None,
         isPaletteOpen = True, isPropertiesPanelOpen = True\<rparr>,
      history = \<lparr>past = [], future = []\<rparr>\<rparr>"

text \<open>
  Claim C6. After \<open>deleteContext(contextId)\<close> no context map of the state has the deleted
  context's id as its \<open>sourceContextId\<close> or as its \<open>targetContextId\<close>, whatever the state
  and the id were; the context itself is gone from \<open>contexts\<close> as well.
\<close>

theorem deleteContext_drops_context_maps:
  "(\<forall>m \<in> set (contextMaps (state (deleteContext contextId st))).
      sourceContextId m \<noteq> contextId \<and> targetContextId m \<noteq> contextId)
   \<and> map_of (contexts (state (deleteContext contextId st))) contextId = None"
proof
  show "\<forall>m \<in> set (contextMaps (state (deleteContext contextId st))).
      sourceContextId m \<noteq> contextId \<and> targetContextId m \<noteq> contextId"
    by (simp add: deleteContext_def Let_def)
next
  have "contextId \<notin> fst ` set (delete_key contextId (contexts (state st)))"
    by (auto simp: delete_key_def)
  then show "map_of (contexts (state (deleteContext contextId st))) contextId = None"
    by (simp add: deleteContext_def Let_def map_of_eq_None_iff)
qed

theorem deleteContext_drops_context_maps_witness:
  "contextMaps (state (deleteContext ''c1'' example_store)) = [example_map ''m2'' ''c2'' ''c3'']
   \<and> example_map ''m2'' ''c2'' ''c3'' \<in> set (contextMaps (state (deleteContext ''c1'' example_store)))
   \<and> sourceContextId (example_map ''m2'' ''c2'' ''c3'') \<noteq> ''c1''
   \<and> targetContextId (example_map ''m2'' ''c2'' ''c3'') \<noteq> ''c1''
   \<and> map fst (contexts (state (deleteContext ''c1'' example_store))) = [''c2'', ''c3'']
   \<and> activeContextId (state (deleteContext ''c1'' example_store)) = Some ''c2''"
  using deleteContext_drops_context_maps [of "''c1''" example_store]
  by (simp add: deleteContext_def example_store_def example_map_def example_context_def
      delete_key_def saveToHistory_def Let_def)

section \<open>Deleting a node\<close>

text \<open>A store whose only context \<open>c1\<close> has three nodes and three morphisms, two of them
  at the node \<open>n1\<close>, and in which \<open>n1\<close> and \<open>n2\<close> are selected.\<close>

definition example_entity :: "string \<Rightarrow> NodeData" where
  "example_entity n = \<lparr>node = Entity \<lparr>entity_name = n, entity_fields = []\<rparr>, position = (0, 0)\<rparr>"

definition example_morphism :: "string \<Rightarrow> string \<Rightarrow> string \<Rightarrow> Morphism" where
  "example_morphism i src tgt =
     \<lparr>morphism_id = i, sourceId = src, targetId = tgt, morphism_name = i, cardinality = One\<rparr>"

definition example_graph :: ContextData where
  "example_graph =
     \<lparr>context_id = ''c1'', context_name = ''Sales'',
      nodes = [(''n1'', example_entity ''Customer''), (''n2'', example_entity ''Order''),
               (''n3'', example_entity ''Product'')],
      context_morphisms = [example_morphism ''e1'' ''n2'' ''n1'',
                           example_morphism ''e2'' ''n2'' ''n3'',
                           example_morphism ''e3'' ''n1'' ''n3'']\<rparr>"

definition example_node_store :: Store where
  "example_node_store =
     \<lparr>state =
        \<lparr>activeContextId = Some ''c1'',
         contexts = [(''c1'', example_graph)],
         contextMaps = [],
         selectedNodeIds = [''n1'', ''n2''], selectedEdgeIds = [], validationResult = None,
         isPaletteOpen = True, isPropertiesPanelOpen = True\<rparr>,
      history = \<lparr>past = [], future = []\<rparr>\<rparr>"

lemma map_of_set_key_same: "map_of (set_key k v xs) k = Some v"
  by (simp add: set_key_def update_conv')

lemma map_of_set_key_other: "k' \<noteq> k \<Longrightarrow> map_of (set_key k v xs) k' = map_of xs k'"
  by (simp add: set_key_def update_conv')

lemma map_of_delete_key_other: "k' \<noteq> k \<Longrightarrow> map_of (delete_key k xs) k' = map_of xs k'"
  by (induction xs) (auto simp: delete_key_def)

lemma map_of_delete_key_same: "map_of (delete_key k xs) k = None"
  by (induction xs) (auto simp: delete_key_def)

text \<open>
  Claim C10, as stated, fails where \<open>contextId\<close> names no context of the state: the
  guard \<open>if (context)\<close> then skips the whole body, the selection included, and the node
  id stays selected.
\<close>

theorem deleteNode_unknown_context_keeps_selection:
  "''n1'' \<in> set (selectedNodeIds (state (deleteNode ''c9'' ''n1'' example_node_store)))"
  by (simp add: deleteNode_def example_node_store_def Let_def)

text \<open>
  Claim C10, amended. When \<open>contextId\<close> names a context \<open>c\<close> of the state, then after
  \<open>deleteNode(contextId, nodeId)\<close> that context has no morphism whose \<open>sourceId\<close> or
  \<open>targetId\<close> is \<open>nodeId\<close>, \<open>nodeId\<close> is no longer among \<open>selectedNodeIds\<close>, the node is
  gone, and every other node and every other morphism of the context is as before, in
  the order it had; the other contexts are untouched. When \<open>contextId\<close> names no context,
  the state is left as it was.
\<close>

theorem deleteNode_removes_node_and_edges:
  "(map_of (contexts (state st)) contextId = Some c \<longrightarrow>
     (\<exists>c'. map_of (contexts (state (deleteNode contextId nodeId st))) contextId = Some c'
        \<and> (\<forall>m \<in> set (context_morphisms c'). sourceId m \<noteq> nodeId \<and> targetId m \<noteq> nodeId)
        \<and> context_morphisms c'
            = filter (\<lambda>m. sourceId m \<noteq> nodeId \<and> targetId m \<noteq> nodeId) (context_morphisms c)
        \<and> nodes c' = filter (\<lambda>e. fst e \<noteq> nodeId) (nodes c)
        \<and> map_of (nodes c') nodeId = None
        \<and> (\<forall>k. k \<noteq> nodeId \<longrightarrow> map_of (nodes c') k = map_of (nodes c) k)
        \<and> context_id c' = context_id c \<and> context_name c' = context_name c)
     \<and> nodeId \<notin> set (selectedNodeIds (state (deleteNode contextId nodeId st)))
     \<and> (\<forall>k. k \<noteq> contextId \<longrightarrow>
           map_of (contexts (state (deleteNode contextId nodeId st))) k
           = map_of (contexts (state st)) k))
   \<and> (map_of (contexts (state st)) contextId = None \<longrightarrow>
        state (deleteNode contextId nodeId st) = state st)"
  by (auto simp: deleteNode_def Let_def map_of_set_key_same map_of_set_key_other
      map_of_delete_key_other [unfolded delete_key_def]
      map_of_delete_key_same [unfolded delete_key_def] delete_key_def)

theorem deleteNode_removes_node_and_edges_witness:
  "map_of (contexts (state example_node_store)) ''c1'' = Some example_graph
   \<and> map_of (contexts (state (deleteNode ''c1'' ''n1'' example_node_store))) ''c1''
       = Some (example_graph\<lparr>nodes := [(''n2'', example_entity ''Order''),
                                        (''n3'', example_entity ''Product'')],
                              context_morphisms := [example_morphism ''e2'' ''n2'' ''n3'']\<rparr>)
   \<and> selectedNodeIds (state (deleteNode ''c1'' ''n1'' example_node_store)) = [''n2'']
   \<and> ''n1'' \<notin> set (selectedNodeIds (state (deleteNode ''c1'' ''n1'' example_node_store)))"
  using deleteNode_removes_node_and_edges [of example_node_store "''c1''" example_graph "''n1''"]
  by (simp add: deleteNode_def example_node_store_def example_graph_def example_morphism_def
      example_entity_def delete_key_def set_key_def saveToHistory_def Let_def)

section \<open>What the generators' loops compute\<close>

lemma gs_context_push [simp]: "gs_context (push x s) = gs_context s"
  by (simp add: push_def)

lemma gs_out_push [simp]: "gs_out (push x s) = gs_out s @ [x]"
  by (simp add: push_def)

lemma fold_push:
  "gs_context (fold push xs s) = gs_context s \<and> gs_out (fold push xs s) = gs_out s @ xs"
  by (induction xs arbitrary: s) simp_all

text \<open>Each loop of the TypeScript generator appends, for every entry in turn, the code
  of its node and an empty line, and never touches the context.\<close>

definition ts_block :: "ContextData \<Rightarrow> CodeGenOptions \<Rightarrow> string \<times> NodeData \<Rightarrow> string list" where
  "ts_block c options e = [ts_item c options (node (snd e)), '''']"

lemma fold_ts_step:
  "gs_context (fold (ts_step options) es s) = gs_context s
   \<and> gs_out (fold (ts_step options) es s)
       = gs_out s @ concat (map (ts_block (gs_context s) options) es)"
  by (induction es arbitrary: s) (simp_all add: ts_step_def ts_block_def)

text \<open>The order in which the TypeScript generator visits the entries: the enumerations,
  then the value objects, the entities and the aggregates, each group in the order of
  the node map.\<close>

definition ts_order :: "Nodes \<Rightarrow> Nodes" where
  "ts_order es =
     filter (of_kind KEnum) es @ filter (of_kind KValue) es
     @ filter (of_kind KEntity) es @ filter (of_kind KAggregate) es"

definition generateTypeScript_lines ::
  "string \<Rightarrow> ContextData \<Rightarrow> CodeGenOptions \<Rightarrow> string list" where
  "generateTypeScript_lines now c options =
     gs_out (fst (generateTypeScript_run now options (init_state c)))"

lemma generateTypeScript_run_context:
  "gs_context (fst (generateTypeScript_run now options s)) = gs_context s"
  by (simp add: generateTypeScript_run_def Let_def fold_ts_step fold_push)

lemma generateTypeScript_run_out:
  "gs_out (fst (generateTypeScript_run now options s))
   = gs_out s @ (if includeComments options then ts_header now (gs_context s) else [])
     @ concat (map (ts_block (gs_context s) options) (ts_order (nodes (gs_context s))))"
  by (simp add: generateTypeScript_run_def Let_def fold_ts_step fold_push ts_order_def)

lemma generateTypeScript_lines_eq:
  "generateTypeScript_lines now c options
   = (if includeComments options then ts_header now c else [])
     @ concat (map (ts_block c options) (ts_order (nodes c)))"
  by (simp add: generateTypeScript_lines_def generateTypeScript_run_out init_state_def)

lemma generateTypeScript_eq:
  "generateTypeScript now c options
   = \<lparr>filename = remove_spaces (context_name c) @ ''.ts'',
      content = trim (join nl (generateTypeScript_lines now c options)),
      file_language = TypeScript\<rparr>"
proof -
  have "snd (generateTypeScript_run now options s)
        = \<lparr>filename = remove_spaces (context_name (gs_context s)) @ ''.ts'',
           content = trim (join nl (gs_out (fst (generateTypeScript_run now options s)))),
           file_language = TypeScript\<rparr>" for s
    by (simp add: generateTypeScript_run_def Let_def fold_ts_step fold_push)
  then show ?thesis
    by (simp add: generateTypeScript_def generateTypeScript_lines_def init_state_def)
qed

text \<open>The Java and C# generators push one file per entry: the content of every node
  starts with a \<open>package\<close> or \<open>namespace\<close> line and its file name ends in an extension,
  so the test \<open>content && filename\<close> never fails.\<close>

lemma join_Cons_nonempty: "x \<noteq> [] \<Longrightarrow> join sep (x # xs) \<noteq> []"
  by (cases xs) simp_all

lemma java_content_nonempty: "java_content ns options d \<noteq> []"
  by (cases d)
    (simp_all add: java_generateEntity_def java_entity_lines_def java_generateValueObject_def
      java_value_lines_def java_generateEnum_def java_enum_lines_def java_generateAggregate_def
      java_aggregate_lines_def join_Cons_nonempty)

lemma java_filename_nonempty: "java_filename d \<noteq> []"
  by (cases d) simp_all

lemma csharp_content_nonempty: "csharp_content ns options d \<noteq> []"
  by (cases d)
    (simp_all add: csharp_generateEntity_def csharp_entity_lines_def
      csharp_generateValueObject_def csharp_value_lines_def csharp_generateEnum_def
      csharp_enum_lines_def csharp_generateAggregate_def csharp_aggregate_lines_def
      join_Cons_nonempty)

lemma csharp_filename_nonempty: "csharp_filename d \<noteq> []"
  by (cases d) simp_all

definition java_file :: "Nodes \<Rightarrow> CodeGenOptions \<Rightarrow> string \<times> NodeData \<Rightarrow> GeneratedFile" where
  "java_file ns options e =
     \<lparr>filename = java_filename (node (snd e)),
      content = java_content ns options (node (snd e)),
      file_language = Java\<rparr>"

definition csharp_file :: "Nodes \<Rightarrow> CodeGenOptions \<Rightarrow> string \<times> NodeData \<Rightarrow> GeneratedFile" where
  "csharp_file ns options e =
     \<lparr>filename = csharp_filename (node (snd e)),
      content = csharp_content ns options (node (snd e)),
      file_language = CSharp\<rparr>"

lemma fold_java_step:
  "gs_context (fold (java_step options) es s) = gs_context s
   \<and> gs_out (fold (java_step options) es s)
       = gs_out s @ map (java_file (nodes (gs_context s)) options) es"
  by (induction es arbitrary: s)
    (simp_all add: java_step_def java_file_def Let_def java_content_nonempty
      java_filename_nonempty)

lemma fold_csharp_step:
  "gs_context (fold (csharp_step options) es s) = gs_context s
   \<and> gs_out (fold (csharp_step options) es s)
       = gs_out s @ map (csharp_file (nodes (gs_context s)) options) es"
  by (induction es arbitrary: s)
    (simp_all add: csharp_step_def csharp_file_def Let_def csharp_content_nonempty
      csharp_filename_nonempty)

lemma generateJava_eq: "generateJava c options = map (java_file (nodes c) options) (nodes c)"
  by (simp add: generateJava_def generateJava_run_def fold_java_step init_state_def)

lemma generateCSharp_eq:
  "generateCSharp c options = map (csharp_file (nodes c) options) (nodes c)"
  by (simp add: generateCSharp_def generateCSharp_run_def fold_csharp_step init_state_def)

lemma generateCode_eq:
  "generateCode now c lang p =
     (case lang of
        TypeScript \<Rightarrow> [generateTypeScript now c (defaultOptions lang p)]
      | Java \<Rightarrow> generateJava c (defaultOptions lang p)
      | CSharp \<Rightarrow> generateCSharp c (defaultOptions lang p))"
  by (cases lang)
    (simp_all add: generateCode_def generateCode_run_def Let_def generateTypeScript_def
      generateJava_def generateCSharp_def)

section \<open>The order of the generated items\<close>

text \<open>The rank of a kind in the TypeScript file.\<close>

fun kind_rank :: "Kind \<Rightarrow> nat" where
  "kind_rank KEnum = 0"
| "kind_rank KValue = 1"
| "kind_rank KEntity = 2"
| "kind_rank KAggregate = 3"

definition entry_rank :: "string \<times> NodeData \<Rightarrow> nat" where
  "entry_rank e = kind_rank (kind (node (snd e)))"

lemma kind_rank_inj: "kind_rank a = kind_rank b \<longleftrightarrow> a = b"
  by (cases a; cases b) simp_all

lemma filter_rank_of_kind:
  "filter (\<lambda>x. entry_rank x = r) (filter (of_kind k) es)
   = (if kind_rank k = r then filter (of_kind k) es else [])"
  by (induction es) (auto simp: of_kind_def entry_rank_def)

lemma filter_rank_eq_of_kind:
  "filter (\<lambda>x. entry_rank x = kind_rank k) es = filter (of_kind k) es"
  by (rule filter_cong) (auto simp: entry_rank_def of_kind_def kind_rank_inj)

lemma filter_rank_ts_order:
  "filter (\<lambda>x. entry_rank x = r) (ts_order es) = filter (\<lambda>x. entry_rank x = r) es"
proof -
  have split: "filter (\<lambda>x. entry_rank x = r) (ts_order es)
      = (if kind_rank KEnum = r then filter (of_kind KEnum) es else [])
        @ (if kind_rank KValue = r then filter (of_kind KValue) es else [])
        @ (if kind_rank KEntity = r then filter (of_kind KEntity) es else [])
        @ (if kind_rank KAggregate = r then filter (of_kind KAggregate) es else [])"
    by (simp only: ts_order_def filter_append filter_rank_of_kind)
  have bound: "entry_rank x \<le> 3" for x :: "string \<times> NodeData"
    by (cases "kind (node (snd x))") (simp_all add: entry_rank_def)
  consider "r = 0" | "r = 1" | "r = 2" | "r = 3" | "r > 3"
    by linarith
  then show ?thesis
  proof cases
    case 1
    show ?thesis
      unfolding split using 1 filter_rank_eq_of_kind [of KEnum es] by simp
  next
    case 2
    show ?thesis
      unfolding split using 2 filter_rank_eq_of_kind [of KValue es] by simp
  next
    case 3
    show ?thesis
      unfolding split using 3 filter_rank_eq_of_kind [of KEntity es] by simp
  next
    case 4
    show ?thesis
      unfolding split using 4 filter_rank_eq_of_kind [of KAggregate es] by simp
  next
    case 5
    then have "entry_rank x \<noteq> r" for x :: "string \<times> NodeData"
      using bound [of x] by simp
    then have "filter (\<lambda>x. entry_rank x = r) es = []"
      by (simp add: filter_empty_conv)
    then show ?thesis
      unfolding split using 5 by simp
  qed
qed

lemma mset_ts_order: "mset (ts_order es) = mset es"
proof (induction es)
  case Nil
  show ?case by (simp add: ts_order_def)
next
  case (Cons e es)
  then show ?case
    by (cases "kind (node (snd e))") (simp_all add: ts_order_def of_kind_def)
qed

lemma map_rank_of_kind:
  "map entry_rank (filter (of_kind k) es) = replicate (length (filter (of_kind k) es)) (kind_rank k)"
  by (induction es) (simp_all add: of_kind_def entry_rank_def)

lemma sorted_ts_order: "sorted (map entry_rank (ts_order es))"
  by (auto simp: ts_order_def map_rank_of_kind sorted_append)

lemma ts_order_is_stable_sort: "ts_order es = sort_key entry_rank es"
proof (rule properties_for_sort_key [symmetric])
  show "mset (ts_order es) = mset es"
    by (rule mset_ts_order)
next
  fix k
  show "filter (\<lambda>x. entry_rank k = entry_rank x) (ts_order es)
        = filter (\<lambda>x. entry_rank k = entry_rank x) es"
    using filter_rank_ts_order [of "entry_rank k" es] by (simp add: eq_commute)
next
  show "sorted (map entry_rank (ts_order es))"
    by (rule sorted_ts_order)
qed

text \<open>The items of the file are those of the node map: every node's code is one of the
  lines that \<open>generateTypeScript\<close> joins, and every node's file is among the files that
  \<open>generateJava\<close> and \<open>generateCSharp\<close> return.\<close>

lemma set_ts_order: "set (ts_order es) = set es"
  using mset_ts_order [of es] by (rule mset_eq_setD)

lemma ts_item_in_lines:
  "e \<in> set (nodes c) \<Longrightarrow>
     ts_item c options (node (snd e)) \<in> set (generateTypeScript_lines now c options)"
  by (auto simp: generateTypeScript_lines_eq set_ts_order ts_block_def)

lemma java_file_in_files:
  "e \<in> set (nodes c) \<Longrightarrow> java_file (nodes c) options e \<in> set (generateJava c options)"
  by (simp add: generateJava_eq)

lemma csharp_file_in_files:
  "e \<in> set (nodes c) \<Longrightarrow> csharp_file (nodes c) options e \<in> set (generateCSharp c options)"
  by (simp add: generateCSharp_eq)

text \<open>\<open>join\<close> puts the separator before every element but the first.\<close>

lemma join_Cons_concat: "join sep (x # xs) = x @ concat (map ((@) sep) xs)"
  by (induction xs arbitrary: x) simp_all

section \<open>The time stamp of the TypeScript file\<close>

text \<open>\<open>trim\<close> leaves a text alone up to its last character that is not white space.\<close>

lemma trim_keeps_front:
  assumes "a \<noteq> []" and "\<not> is_space (hd a)" and "\<exists>x \<in> set b. \<not> is_space x"
  shows "trim (a @ m @ b) = a @ m @ rev (dropWhile is_space (rev b))"
proof -
  obtain x xs where a: "a = x # xs"
    using assms(1) by (cases a) auto
  have front: "dropWhile is_space (a @ m @ b) = a @ m @ b"
    using assms(2) by (simp add: a)
  obtain y where "y \<in> set (rev b)" and "\<not> is_space y"
    using assms(3) by auto
  then have "dropWhile is_space (rev b @ rev m @ rev a)
             = dropWhile is_space (rev b) @ rev m @ rev a"
    by (rule dropWhile_append1)
  then show ?thesis
    by (simp add: trim_def front)
qed

text \<open>With comments on, the text of the file is a fixed front, the time of the run, and
  a rest that does not depend on the time.\<close>

definition ts_front :: "ContextData \<Rightarrow> string" where
  "ts_front c =
     ''/**'' @ nl @ '' * Generated by SketchDDD'' @ nl @ '' * Context: '' @ context_name c @ nl
     @ '' * Generated at: ''"

definition ts_rest :: "ContextData \<Rightarrow> CodeGenOptions \<Rightarrow> string" where
  "ts_rest c options =
     nl @ '' */'' @ nl
     @ join nl ('''' # concat (map (ts_block c options) (ts_order (nodes c))))"

lemma ts_joined_with_comments:
  "includeComments options \<Longrightarrow>
   join nl (generateTypeScript_lines now c options) = ts_front c @ now @ ts_rest c options"
  by (simp add: generateTypeScript_lines_eq ts_header_def ts_front_def ts_rest_def)

lemma ts_content_with_comments:
  assumes "includeComments options"
  shows "content (generateTypeScript now c options)
         = ts_front c @ now @ rev (dropWhile is_space (rev (ts_rest c options)))"
proof -
  have "ts_front c \<noteq> []" and "\<not> is_space (hd (ts_front c))"
    by (simp_all add: ts_front_def is_space_def)
  moreover have "CHR ''/'' \<in> set (ts_rest c options)" and "\<not> is_space CHR ''/''"
    by (simp_all add: ts_rest_def is_space_def)
  then have "\<exists>x \<in> set (ts_rest c options). \<not> is_space x"
    by blast
  ultimately show ?thesis
    using assms by (simp add: generateTypeScript_eq ts_joined_with_comments trim_keeps_front)
qed

lemma ts_with_comments_follows_clock:
  assumes "includeComments options"
  shows "generateTypeScript now1 c options = generateTypeScript now2 c options
         \<longleftrightarrow> now1 = now2"
proof
  assume "generateTypeScript now1 c options = generateTypeScript now2 c options"
  then have "content (generateTypeScript now1 c options)
             = content (generateTypeScript now2 c options)"
    by simp
  then show "now1 = now2"
    using assms by (simp add: ts_content_with_comments)
next
  assume "now1 = now2"
  then show "generateTypeScript now1 c options = generateTypeScript now2 c options"
    by simp
qed

lemma ts_without_comments_ignores_clock:
  assumes "\<not> includeComments options"
  shows "generateTypeScript now1 c options = generateTypeScript now2 c options"
  using assms by (simp add: generateTypeScript_eq generateTypeScript_lines_eq)

text \<open>An empty context named \<open>Commerce\<close>, generated with the default options at two
  moments a second apart.\<close>

definition empty_commerce :: ContextData where
  "empty_commerce =
     \<lparr>context_id = ''c1'', context_name = ''Commerce'', nodes = [], context_morphisms = []\<rparr>"

text \<open>
  Claim C1, as stated, fails for the TypeScript backend with its default options: the
  file starts with a comment that holds the time of the run, so a second run a second
  later gives another text.
\<close>

theorem generateCode_typescript_differs_between_runs:
  "generateCode ''2026-01-01T00:00:00.000Z'' empty_commerce TypeScript no_options
   \<noteq> generateCode ''2026-01-01T00:00:01.000Z'' empty_commerce TypeScript no_options"
proof -
  have "includeComments (defaultOptions TypeScript no_options)"
    by (simp add: defaultOptions_def no_options_def override_def)
  then show ?thesis
    by (simp add: generateCode_eq ts_with_comments_follows_clock)
qed

text \<open>
  Claim C1, amended. The Java and C# generators do not read the clock, and
  the TypeScript generator reads it only for the comment at the head of the file. So
  two runs on the same context with the same language and options give the same files
  for Java and C#, and for TypeScript when \<open>includeComments\<close> is off; with
  \<open>includeComments\<close> on, as it is by default, two TypeScript runs give the same file
  exactly when the clock showed the same time at both.
\<close>

theorem generateCode_repeatable:
  "(lang \<noteq> TypeScript \<or> \<not> includeComments (defaultOptions lang p) \<longrightarrow>
      generateCode now1 c lang p = generateCode now2 c lang p)
   \<and> (includeComments (defaultOptions TypeScript p) \<longrightarrow>
      (generateCode now1 c TypeScript p = generateCode now2 c TypeScript p \<longleftrightarrow> now1 = now2))
   \<and> (\<not> includeComments options \<longrightarrow>
      generateTypeScript now1 c options = generateTypeScript now2 c options)
   \<and> (includeComments options \<longrightarrow>
      (generateTypeScript now1 c options = generateTypeScript now2 c options \<longleftrightarrow> now1 = now2))"
proof (intro conjI impI)
  assume "lang \<noteq> TypeScript \<or> \<not> includeComments (defaultOptions lang p)"
  then show "generateCode now1 c lang p = generateCode now2 c lang p"
    by (cases lang) (auto simp: generateCode_eq ts_without_comments_ignores_clock)
next
  assume "includeComments (defaultOptions TypeScript p)"
  then show "generateCode now1 c TypeScript p = generateCode now2 c TypeScript p
             \<longleftrightarrow> now1 = now2"
    by (simp add: generateCode_eq ts_with_comments_follows_clock)
next
  assume "\<not> includeComments options"
  then show "generateTypeScript now1 c options = generateTypeScript now2 c options"
    by (rule ts_without_comments_ignores_clock)
next
  assume "includeComments options"
  then show "generateTypeScript now1 c options = generateTypeScript now2 c options
             \<longleftrightarrow> now1 = now2"
    by (rule ts_with_comments_follows_clock)
qed

definition quiet_options :: PartialOptions where
  "quiet_options = no_options\<lparr>p_includeComments := Some False\<rparr>"

theorem generateCode_repeatable_witness:
  "\<not> includeComments (defaultOptions TypeScript quiet_options)
   \<and> generateCode ''2026-01-01T00:00:00.000Z'' empty_commerce TypeScript quiet_options
       = generateCode ''2026-01-01T00:00:01.000Z'' empty_commerce TypeScript quiet_options
   \<and> includeComments (defaultOptions TypeScript no_options)
   \<and> generateCode ''2026-01-01T00:00:00.000Z'' empty_commerce TypeScript no_options
       = generateCode ''2026-01-01T00:00:00.000Z'' empty_commerce TypeScript no_options
   \<and> generateCode ''2026-01-01T00:00:00.000Z'' empty_commerce Java no_options
       = generateCode ''2026-01-01T00:00:01.000Z'' empty_commerce Java no_options"
  using generateCode_repeatable [of TypeScript quiet_options "''2026-01-01T00:00:00.000Z''"
      empty_commerce "''2026-01-01T00:00:01.000Z''" "defaultOptions TypeScript quiet_options"]
    generateCode_repeatable [of Java no_options "''2026-01-01T00:00:00.000Z''"
      empty_commerce "''2026-01-01T00:00:01.000Z''" "defaultOptions Java no_options"]
  by (simp add: defaultOptions_def quiet_options_def no_options_def override_def)

section \<open>The order of the node map and the generated output\<close>

text \<open>A context that declares the entity \<open>Customer\<close> before the enumeration \<open>Status\<close>,
  and options that print neither comments nor classes.\<close>

definition customer_node :: EntityNode where
  "customer_node = \<lparr>entity_name = ''Customer'', entity_fields = []\<rparr>"

definition status_node :: EnumNode where
  "status_node =
     \<lparr>enum_name = ''Status'',
      enum_variants = [\<lparr>variant_id = ''v1'', variant_name = ''Active'', variant_payload = None\<rparr>]\<rparr>"

definition order_example :: ContextData where
  "order_example =
     \<lparr>context_id = ''c1'', context_name = ''Commerce'',
      nodes = [(''n1'', \<lparr>node = Entity customer_node, position = (0, 0)\<rparr>),
               (''n2'', \<lparr>node = Enum status_node, position = (250, 0)\<rparr>)],
      context_morphisms = []\<rparr>"

definition plain_options :: CodeGenOptions where
  "plain_options =
     \<lparr>language = TypeScript, includeComments = False, generateInterfaces = True,
      generateClasses = False, namespace = None, packageName = None\<rparr>"

text \<open>\<open>precedes a b xs\<close>: after the first \<open>a\<close> in \<open>xs\<close> there is a \<open>b\<close>.\<close>

definition precedes :: "'a \<Rightarrow> 'a \<Rightarrow> 'a list \<Rightarrow> bool" where
  "precedes a b xs = (b \<in> set (tl (dropWhile (\<lambda>x. x \<noteq> a) xs)))"

lemma order_example_codes:
  "ts_item order_example plain_options (Entity customer_node)
     = join nl [''export interface Customer {'', ''  readonly id: string;'', ''}'']"
  "ts_item order_example plain_options (Enum status_node)
     = join nl [''export enum Status {'', ''  Active = '' @ sq @ ''Active'' @ sq, ''}'']"
  by (simp_all add: order_example_def plain_options_def customer_node_def status_node_def
      ts_generateEntity_def ts_entity_lines_def ts_generateEnum_def ts_enum_lines_def
      ts_enum_comment_def ts_enum_member_def indexed_def Let_def)

lemma order_example_lines:
  "generateTypeScript_lines ''2026-01-01T00:00:00.000Z'' order_example plain_options
   = [ts_item order_example plain_options (Enum status_node), '''',
      ts_item order_example plain_options (Entity customer_node), '''']"
  by (simp add: generateTypeScript_lines_eq ts_order_def of_kind_def ts_block_def
      order_example_def plain_options_def)

text \<open>
  Claim C2, as stated, fails for the TypeScript backend. The node map of the context
  has \<open>Customer\<close> under the id \<open>n1\<close> and \<open>Status\<close> under \<open>n2\<close>, declared in this order;
  neither id is the decimal numeral of an array index, so \<open>Object.entries\<close> gives the
  two entries in the order of their declaration. The file has the code of \<open>Status\<close>
  first, since the generator writes all enumerations before any entity.
\<close>

theorem typescript_reorders_by_kind:
  "map fst (nodes order_example) = [''n1'', ''n2'']
   \<and> map (node \<circ> snd) (nodes order_example) = [Entity customer_node, Enum status_node]
   \<and> precedes (ts_item order_example plain_options (Enum status_node))
        (ts_item order_example plain_options (Entity customer_node))
        (generateTypeScript_lines ''2026-01-01T00:00:00.000Z'' order_example plain_options)
   \<and> \<not> precedes (ts_item order_example plain_options (Entity customer_node))
        (ts_item order_example plain_options (Enum status_node))
        (generateTypeScript_lines ''2026-01-01T00:00:00.000Z'' order_example plain_options)
   \<and> content (generateTypeScript ''2026-01-01T00:00:00.000Z'' order_example plain_options)
       = join nl [''export enum Status {'', ''  Active = '' @ sq @ ''Active'' @ sq, ''}'', '''',
                  ''export interface Customer {'', ''  readonly id: string;'', ''}'']"
proof (intro conjI)
  show "map fst (nodes order_example) = [''n1'', ''n2'']"
    by (simp add: order_example_def)
  show "map (node \<circ> snd) (nodes order_example) = [Entity customer_node, Enum status_node]"
    by (simp add: order_example_def)
  show "precedes (ts_item order_example plain_options (Enum status_node))
        (ts_item order_example plain_options (Entity customer_node))
        (generateTypeScript_lines ''2026-01-01T00:00:00.000Z'' order_example plain_options)"
    unfolding order_example_lines order_example_codes by (simp add: precedes_def)
  show "\<not> precedes (ts_item order_example plain_options (Entity customer_node))
        (ts_item order_example plain_options (Enum status_node))
        (generateTypeScript_lines ''2026-01-01T00:00:00.000Z'' order_example plain_options)"
    unfolding order_example_lines order_example_codes by (simp add: precedes_def)
  show "content (generateTypeScript ''2026-01-01T00:00:00.000Z'' order_example plain_options)
       = join nl [''export enum Status {'', ''  Active = '' @ sq @ ''Active'' @ sq, ''}'', '''',
                  ''export interface Customer {'', ''  readonly id: string;'', ''}'']"
    unfolding generateTypeScript_eq order_example_lines order_example_codes
    by (simp add: trim_def is_space_def nl_def sq_def)
qed

text \<open>
  Claim C2, amended. The order that the generators keep is the order in which
  \<open>Object.entries\<close> gives the entries of the node map, which is the list \<open>nodes c\<close>. The
  Java and the C# generator return one file per entry, in that order: the file at each
  place of the result is the file of the entry at that place. The TypeScript generator
  writes, after the optional head comment, the code of each entry followed by an empty
  line, in the order that a stable sort of the entries by kind gives (enumerations,
  value objects, entities, aggregates): of two entries, the one that \<open>Object.entries\<close>
  gives first is written first when they are of one kind, or when its kind comes first
  in that list.
\<close>

theorem generators_follow_entries_order:
  "generateJava c options = map (java_file (nodes c) options) (nodes c)
   \<and> generateCSharp c options = map (csharp_file (nodes c) options) (nodes c)
   \<and> generateTypeScript_lines now c options
       = (if includeComments options then ts_header now c else [])
         @ concat (map (ts_block c options) (sort_key entry_rank (nodes c)))
   \<and> content (generateTypeScript now c options)
       = trim (join nl (generateTypeScript_lines now c options))"
  by (simp add: generateJava_eq generateCSharp_eq generateTypeScript_lines_eq
      generateTypeScript_eq ts_order_is_stable_sort)

section \<open>The generators only read the context\<close>

text \<open>
  Claim C9. Each generator leaves the context it is given as it was: the context object
  of the state after \<open>generateTypeScript\<close>, \<open>generateJava\<close> or \<open>generateCSharp\<close> has run
  from any state is the context object before, and so is the context after
  \<open>generateCode\<close>, for every language and all options.
\<close>

theorem generators_leave_context_unchanged:
  "fst (generateCode_run now c lang p) = c
   \<and> gs_context (fst (generateTypeScript_run now options s)) = gs_context s
   \<and> gs_context (generateJava_run options t) = gs_context t
   \<and> gs_context (generateCSharp_run options t) = gs_context t"
  by (cases lang)
    (simp_all add: generateCode_run_def Let_def generateTypeScript_run_context
      generateJava_run_def generateCSharp_run_def fold_java_step fold_csharp_step
      init_state_def)

section \<open>Enumerations in the TypeScript backend\<close>

lemma indexed_length [simp]: "length (indexed xs) = length xs"
  by (simp add: indexed_def)

lemma indexed_nth: "i < length xs \<Longrightarrow> indexed xs ! i = (i, xs ! i)"
  by (simp add: indexed_def)

lemma indexed_map: "indexed (map f xs) = map (\<lambda>iv. (fst iv, f (snd iv))) (indexed xs)"
  by (simp add: indexed_def zip_map2 case_prod_beta)

lemma map_indexed: "map f (indexed xs) = map (\<lambda>i. f (i, xs ! i)) [0 ..< length xs]"
  by (rule nth_equalityI) (simp_all add: indexed_def)

text \<open>The text of one case of the union and of one member of the simple enum.\<close>

definition union_case_text :: "EnumVariant \<Rightarrow> string" where
  "union_case_text v =
     ''  | { type: '' @ sq @ variant_name v @ sq
     @ (if truthy (variant_payload v)
        then ''; value: '' @ mapTypeToTS (the (variant_payload v)) else '''')
     @ '' }''"

definition enum_member_text :: "EnumVariant \<Rightarrow> string" where
  "enum_member_text v = ''  '' @ variant_name v @ '' = '' @ sq @ variant_name v @ sq"

lemma ts_union_case_text:
  "ts_union_case len (i, v) = union_case_text v @ (if i = len - 1 then '';'' else '''')"
  by (cases "variant_payload v") (simp_all add: ts_union_case_def union_case_text_def Let_def)

lemma ts_enum_member_text:
  "ts_enum_member len (i, v) = enum_member_text v @ (if i < len - 1 then '','' else '''')"
  by (simp add: ts_enum_member_def enum_member_text_def Let_def)

text \<open>What the claim calls a tagged union and a simple enum, read off the text that
  \<open>generateEnum\<close> returns: after the comment, if there is one, the text goes on with the
  declaration \<open>export type N =\<close>, respectively \<open>export enum N {\<close>.\<close>

definition enum_comment_text :: "EnumNode \<Rightarrow> CodeGenOptions \<Rightarrow> string" where
  "enum_comment_text n options =
     (if includeComments options
      then ''/**'' @ nl @ '' * Enum: '' @ enum_name n @ nl @ '' */'' @ nl else [])"

definition declares_union :: "EnumNode \<Rightarrow> CodeGenOptions \<Rightarrow> string \<Rightarrow> bool" where
  "declares_union n options text
     = prefix (enum_comment_text n options @ ''export type '' @ enum_name n @ '' ='') text"

definition declares_enum :: "EnumNode \<Rightarrow> CodeGenOptions \<Rightarrow> string \<Rightarrow> bool" where
  "declares_enum n options text
     = prefix (enum_comment_text n options @ ''export enum '' @ enum_name n @ '' {'') text"

lemma ts_generateEnum_text:
  "ts_generateEnum n options
   = join nl
       ((if includeComments options then [''/**'', '' * Enum: '' @ enum_name n, '' */''] else [])
        @ (if \<exists>v \<in> set (enum_variants n). truthy (variant_payload v)
           then [''export type '' @ enum_name n @ '' ='']
             @ map (\<lambda>i. union_case_text (enum_variants n ! i)
                      @ (if i = length (enum_variants n) - 1 then '';'' else ''''))
                 [0 ..< length (enum_variants n)]
           else [''export enum '' @ enum_name n @ '' {'']
             @ map (\<lambda>i. enum_member_text (enum_variants n ! i)
                      @ (if i < length (enum_variants n) - 1 then '','' else ''''))
                 [0 ..< length (enum_variants n)]
             @ [''}'']))"
  by (simp add: ts_generateEnum_def ts_enum_lines_def ts_enum_comment_def Let_def list_ex_iff
      map_indexed ts_union_case_text ts_enum_member_text)

text \<open>The same text, cut after the declaration.\<close>

lemma ts_generateEnum_split:
  "ts_generateEnum n options
   = enum_comment_text n options
     @ (if \<exists>v \<in> set (enum_variants n). truthy (variant_payload v)
        then (''export type '' @ enum_name n @ '' ='')
          @ concat (map ((@) nl)
              (map (ts_union_case (length (enum_variants n))) (indexed (enum_variants n))))
        else (''export enum '' @ enum_name n @ '' {'')
          @ concat (map ((@) nl)
              (map (ts_enum_member (length (enum_variants n))) (indexed (enum_variants n))
               @ [''}''])))"
  by (simp add: ts_generateEnum_def ts_enum_lines_def ts_enum_comment_def Let_def list_ex_iff
      enum_comment_text_def join_Cons_concat del: join.simps)

lemma declares_union_iff:
  "declares_union n options (ts_generateEnum n options)
   \<longleftrightarrow> (\<exists>v \<in> set (enum_variants n). truthy (variant_payload v))"
  unfolding declares_union_def ts_generateEnum_split by simp

lemma declares_enum_iff:
  "declares_enum n options (ts_generateEnum n options)
   \<longleftrightarrow> \<not> (\<exists>v \<in> set (enum_variants n). truthy (variant_payload v))"
  unfolding declares_enum_def ts_generateEnum_split by simp

text \<open>An enumeration with one variant that has a payload and one that has none, and the
  same enumeration without the payload.\<close>

definition shape_node :: EnumNode where
  "shape_node =
     \<lparr>enum_name = ''Shape'',
      enum_variants =
        [\<lparr>variant_id = ''v1'', variant_name = ''Circle'', variant_payload = Some ''float''\<rparr>,
         \<lparr>variant_id = ''v2'', variant_name = ''Point'', variant_payload = None\<rparr>]\<rparr>"

definition plain_shape_node :: EnumNode where
  "plain_shape_node =
     \<lparr>enum_name = ''Shape'',
      enum_variants =
        [\<lparr>variant_id = ''v1'', variant_name = ''Circle'', variant_payload = None\<rparr>,
         \<lparr>variant_id = ''v2'', variant_name = ''Point'', variant_payload = None\<rparr>]\<rparr>"

text \<open>
  Claim C4. For every enumeration node, \<open>generateEnum\<close> of the TypeScript backend returns
  the declaration of a tagged union (\<open>export type N =\<close>) if and only if some variant
  carries a payload, that is, has a payload type that is present and not the empty
  string; the union then has one case per variant, in order, each with the variant's
  name as its tag and, exactly when the variant carries a payload, a \<open>value\<close> of the
  mapped payload type. An enumeration with no payload is returned as a simple enum
  (\<open>export enum N {\<close>) with one member per variant. \<open>generateTypeScript\<close> writes this text
  into the file for every enumeration node of the context.
\<close>

theorem ts_enum_union_iff_payload:
  "ts_generateEnum n options
     = join nl
         ((if includeComments options then [''/**'', '' * Enum: '' @ enum_name n, '' */''] else [])
          @ (if \<exists>v \<in> set (enum_variants n). truthy (variant_payload v)
             then [''export type '' @ enum_name n @ '' ='']
               @ map (\<lambda>i. union_case_text (enum_variants n ! i)
                        @ (if i = length (enum_variants n) - 1 then '';'' else ''''))
                   [0 ..< length (enum_variants n)]
             else [''export enum '' @ enum_name n @ '' {'']
               @ map (\<lambda>i. enum_member_text (enum_variants n ! i)
                        @ (if i < length (enum_variants n) - 1 then '','' else ''''))
                   [0 ..< length (enum_variants n)]
               @ [''}'']))
   \<and> (declares_union n options (ts_generateEnum n options)
        \<longleftrightarrow> (\<exists>v \<in> set (enum_variants n). truthy (variant_payload v)))
   \<and> (declares_enum n options (ts_generateEnum n options)
        \<longleftrightarrow> \<not> (\<exists>v \<in> set (enum_variants n). truthy (variant_payload v)))
   \<and> ((i, d) \<in> set (nodes c) \<and> node d = Enum n \<longrightarrow>
        ts_generateEnum n options \<in> set (generateTypeScript_lines now c options))
   \<and> content (generateTypeScript now c options)
       = trim (join nl (generateTypeScript_lines now c options))"
proof (intro conjI impI)
  show "ts_generateEnum n options
     = join nl
         ((if includeComments options then [''/**'', '' * Enum: '' @ enum_name n, '' */''] else [])
          @ (if \<exists>v \<in> set (enum_variants n). truthy (variant_payload v)
             then [''export type '' @ enum_name n @ '' ='']
               @ map (\<lambda>i. union_case_text (enum_variants n ! i)
                        @ (if i = length (enum_variants n) - 1 then '';'' else ''''))
                   [0 ..< length (enum_variants n)]
             else [''export enum '' @ enum_name n @ '' {'']
               @ map (\<lambda>i. enum_member_text (enum_variants n ! i)
                        @ (if i < length (enum_variants n) - 1 then '','' else ''''))
                   [0 ..< length (enum_variants n)]
               @ [''}'']))"
    by (rule ts_generateEnum_text)
  show "declares_union n options (ts_generateEnum n options)
        \<longleftrightarrow> (\<exists>v \<in> set (enum_variants n). truthy (variant_payload v))"
    by (rule declares_union_iff)
  show "declares_enum n options (ts_generateEnum n options)
        \<longleftrightarrow> \<not> (\<exists>v \<in> set (enum_variants n). truthy (variant_payload v))"
    by (rule declares_enum_iff)
  show "content (generateTypeScript now c options)
       = trim (join nl (generateTypeScript_lines now c options))"
    by (simp add: generateTypeScript_eq)
next
  assume "(i, d) \<in> set (nodes c) \<and> node d = Enum n"
  then show "ts_generateEnum n options \<in> set (generateTypeScript_lines now c options)"
    using ts_item_in_lines [of "(i, d)" c options now] by simp
qed

theorem ts_enum_union_iff_payload_witness:
  "ts_generateEnum shape_node plain_options
     = join nl [''export type Shape ='',
                ''  | { type: '' @ sq @ ''Circle'' @ sq @ ''; value: number }'',
                ''  | { type: '' @ sq @ ''Point'' @ sq @ '' };'']
   \<and> declares_union shape_node plain_options (ts_generateEnum shape_node plain_options)
   \<and> \<not> declares_enum shape_node plain_options (ts_generateEnum shape_node plain_options)
   \<and> ts_generateEnum plain_shape_node plain_options
     = join nl [''export enum Shape {'',
                ''  Circle = '' @ sq @ ''Circle'' @ sq @ '','',
                ''  Point = '' @ sq @ ''Point'' @ sq,
                ''}'']
   \<and> declares_enum plain_shape_node plain_options
        (ts_generateEnum plain_shape_node plain_options)
   \<and> \<not> declares_union plain_shape_node plain_options
        (ts_generateEnum plain_shape_node plain_options)
   \<and> (''n2'', \<lparr>node = Enum status_node, position = (250, 0)\<rparr>) \<in> set (nodes order_example)
   \<and> ts_generateEnum status_node plain_options
       \<in> set (generateTypeScript_lines ''2026-01-01T00:00:00.000Z'' order_example plain_options)
   \<and> content (generateTypeScript ''2026-01-01T00:00:00.000Z'' order_example plain_options)
       = join nl [''export enum Status {'', ''  Active = '' @ sq @ ''Active'' @ sq, ''}'', '''',
                  ''export interface Customer {'', ''  readonly id: string;'', ''}'']"
  using ts_enum_union_iff_payload [of shape_node plain_options "''n2''"
      "\<lparr>node = Enum status_node, position = (250, 0)\<rparr>" order_example
      "''2026-01-01T00:00:00.000Z''"]
    ts_enum_union_iff_payload [of plain_shape_node plain_options "''n2''"
      "\<lparr>node = Enum status_node, position = (250, 0)\<rparr>" order_example
      "''2026-01-01T00:00:00.000Z''"]
    ts_enum_union_iff_payload [of status_node plain_options "''n2''"
      "\<lparr>node = Enum status_node, position = (250, 0)\<rparr>" order_example
      "''2026-01-01T00:00:00.000Z''"]
  unfolding order_example_lines order_example_codes
  by (simp add: shape_node_def plain_shape_node_def plain_options_def
      union_case_text_def enum_member_text_def order_example_def status_node_def
      mapTypeToTS_def type_or_name_def ts_typeMap_def trim_def is_space_def nl_def sq_def
      ts_generateEnum_def ts_enum_lines_def ts_enum_comment_def ts_union_case_def
      ts_enum_member_def indexed_def Let_def declares_union_def declares_enum_def
      enum_comment_text_def)

section \<open>Enumerations in the Java and C# backends\<close>

text \<open>Both backends read only the names of the variants.\<close>

lemma java_enum_constants_by_name:
  "map (java_enum_constant len) (indexed vs)
   = map (\<lambda>iv. ''    '' @ toUpperCase (snd iv) @ (if fst iv < len - 1 then '','' else '';''))
       (indexed (map variant_name vs))"
  by (simp add: indexed_map java_enum_constant_def Let_def)

lemma csharp_enum_members_by_name:
  "map (csharp_enum_member len) (indexed vs)
   = map (\<lambda>iv. ''    '' @ snd iv @ (if fst iv < len - 1 then '','' else ''''))
       (indexed (map variant_name vs))"
  by (simp add: indexed_map csharp_enum_member_def Let_def)

lemma java_enum_lines_by_name:
  "java_enum_lines n options
   = [''package '' @ java_package options @ '';'', '''']
     @ (if includeComments options then [''/**'', '' * Enum: '' @ enum_name n, '' */''] else [])
     @ [''public enum '' @ enum_name n @ '' {'']
     @ map (\<lambda>iv. ''    '' @ toUpperCase (snd iv)
              @ (if fst iv < length (map variant_name (enum_variants n)) - 1
                 then '','' else '';''))
         (indexed (map variant_name (enum_variants n)))
     @ [''}'']"
  by (simp add: java_enum_lines_def java_enum_constants_by_name)

lemma csharp_enum_lines_by_name:
  "csharp_enum_lines n options
   = [''namespace '' @ csharp_namespace options @ '';'', '''']
     @ (if includeComments options
        then [''/// <summary>'', ''/// Enum: '' @ enum_name n, ''/// </summary>''] else [])
     @ [''public enum '' @ enum_name n, ''{'']
     @ map (\<lambda>iv. ''    '' @ snd iv
              @ (if fst iv < length (map variant_name (enum_variants n)) - 1
                 then '','' else ''''))
         (indexed (map variant_name (enum_variants n)))
     @ [''}'']"
  by (simp add: csharp_enum_lines_def csharp_enum_members_by_name)

definition default_options :: "TargetLanguage \<Rightarrow> CodeGenOptions" where
  "default_options lang = defaultOptions lang no_options"

definition bare_options :: "TargetLanguage \<Rightarrow> CodeGenOptions" where
  "bare_options lang = (default_options lang)\<lparr>includeComments := False\<rparr>"

lemma java_shape_lines:
  "java_enum_lines shape_node (bare_options Java)
   = [''package com.example.domain;'', '''', ''public enum Shape {'', ''    CIRCLE,'',
      ''    POINT;'', ''}'']"
  by (simp add: java_enum_lines_def shape_node_def bare_options_def default_options_def
      defaultOptions_def no_options_def override_def java_package_def java_enum_constant_def
      indexed_def Let_def toUpperCase_def upper_char_def)

lemma csharp_shape_lines:
  "csharp_enum_lines shape_node (bare_options CSharp)
   = [''namespace Domain;'', '''', ''public enum Shape'', ''{'', ''    Circle,'',
      ''    Point'', ''}'']"
  by (simp add: csharp_enum_lines_def shape_node_def bare_options_def default_options_def
      defaultOptions_def no_options_def override_def csharp_namespace_def
      csharp_enum_member_def indexed_def Let_def)

text \<open>
  Claim C3, as stated, fails: for the enumeration \<open>Shape\<close> whose variant \<open>Circle\<close> has the
  payload \<open>float\<close>, the Java and the C# backend write a plain enum and nothing else.
  There is no payload field, and the payload type occurs nowhere in the output, which is
  the output for the same enumeration without the payload.
\<close>

theorem java_csharp_enum_drops_payload:
  "map variant_payload (enum_variants shape_node) = [Some ''float'', None]
   \<and> java_enum_lines shape_node (bare_options Java)
       = [''package com.example.domain;'', '''', ''public enum Shape {'', ''    CIRCLE,'',
          ''    POINT;'', ''}'']
   \<and> csharp_enum_lines shape_node (bare_options CSharp)
       = [''namespace Domain;'', '''', ''public enum Shape'', ''{'', ''    Circle,'',
          ''    Point'', ''}'']
   \<and> java_generateEnum shape_node (bare_options Java)
       = java_generateEnum plain_shape_node (bare_options Java)
   \<and> csharp_generateEnum shape_node (bare_options CSharp)
       = csharp_generateEnum plain_shape_node (bare_options CSharp)
   \<and> java_generateEnum shape_node (bare_options Java)
       = join nl [''package com.example.domain;'', '''', ''public enum Shape {'',
                  ''    CIRCLE,'', ''    POINT;'', ''}'']
   \<and> csharp_generateEnum shape_node (bare_options CSharp)
       = join nl [''namespace Domain;'', '''', ''public enum Shape'', ''{'', ''    Circle,'',
                  ''    Point'', ''}'']"
proof (intro conjI)
  show "map variant_payload (enum_variants shape_node) = [Some ''float'', None]"
    by (simp add: shape_node_def)
  show "java_enum_lines shape_node (bare_options Java)
       = [''package com.example.domain;'', '''', ''public enum Shape {'', ''    CIRCLE,'',
          ''    POINT;'', ''}'']"
    by (rule java_shape_lines)
  show "csharp_enum_lines shape_node (bare_options CSharp)
       = [''namespace Domain;'', '''', ''public enum Shape'', ''{'', ''    Circle,'',
          ''    Point'', ''}'']"
    by (rule csharp_shape_lines)
  show "java_generateEnum shape_node (bare_options Java)
       = java_generateEnum plain_shape_node (bare_options Java)"
    by (simp add: java_generateEnum_def java_enum_lines_by_name shape_node_def
        plain_shape_node_def)
  show "csharp_generateEnum shape_node (bare_options CSharp)
       = csharp_generateEnum plain_shape_node (bare_options CSharp)"
    by (simp add: csharp_generateEnum_def csharp_enum_lines_by_name shape_node_def
        plain_shape_node_def)
  show "java_generateEnum shape_node (bare_options Java)
       = join nl [''package com.example.domain;'', '''', ''public enum Shape {'',
                  ''    CIRCLE,'', ''    POINT;'', ''}'']"
    unfolding java_generateEnum_def java_shape_lines by (rule refl)
  show "csharp_generateEnum shape_node (bare_options CSharp)
       = join nl [''namespace Domain;'', '''', ''public enum Shape'', ''{'', ''    Circle,'',
                  ''    Point'', ''}'']"
    unfolding csharp_generateEnum_def csharp_shape_lines by (rule refl)
qed

text \<open>A context whose only node is the enumeration \<open>Shape\<close>.\<close>

definition shape_context :: ContextData where
  "shape_context =
     \<lparr>context_id = ''c1'', context_name = ''Drawing'',
      nodes = [(''s1'', \<lparr>node = Enum shape_node, position = (0, 0)\<rparr>)],
      context_morphisms = []\<rparr>"

text \<open>The text that each of the two generators returns.\<close>

lemma java_generateEnum_text:
  "java_generateEnum n options
     = join nl
         ([''package '' @ java_package options @ '';'', '''']
          @ (if includeComments options
             then [''/**'', '' * Enum: '' @ enum_name n, '' */''] else [])
          @ [''public enum '' @ enum_name n @ '' {'']
          @ map (\<lambda>i. ''    '' @ toUpperCase (variant_name (enum_variants n ! i))
                   @ (if i < length (enum_variants n) - 1 then '','' else '';''))
              [0 ..< length (enum_variants n)]
          @ [''}''])"
  by (simp add: java_generateEnum_def java_enum_lines_def map_indexed java_enum_constant_def
      Let_def)

lemma csharp_generateEnum_text:
  "csharp_generateEnum n options
     = join nl
         ([''namespace '' @ csharp_namespace options @ '';'', '''']
          @ (if includeComments options
             then [''/// <summary>'', ''/// Enum: '' @ enum_name n, ''/// </summary>''] else [])
          @ [''public enum '' @ enum_name n, ''{'']
          @ map (\<lambda>i. ''    '' @ variant_name (enum_variants n ! i)
                   @ (if i < length (enum_variants n) - 1 then '','' else ''''))
              [0 ..< length (enum_variants n)]
          @ [''}''])"
  by (simp add: csharp_generateEnum_def csharp_enum_lines_def map_indexed csharp_enum_member_def
      Let_def)

lemma enum_files:
  assumes "(i, d) \<in> set (nodes c)" and "node d = Enum n"
  shows "\<lparr>filename = enum_name n @ ''.java'', content = java_generateEnum n options,
            file_language = Java\<rparr> \<in> set (generateJava c options)"
    and "\<lparr>filename = enum_name n @ ''.cs'', content = csharp_generateEnum n options,
            file_language = CSharp\<rparr> \<in> set (generateCSharp c options)"
  using java_file_in_files [OF assms(1), of options] csharp_file_in_files [OF assms(1), of options]
    assms(2)
  by (simp_all add: java_file_def csharp_file_def)

text \<open>
  Claim C3, amended. For every enumeration node the Java and the C# backend write a plain
  enum with one constant per variant, in order (Java in upper case, the last constant
  closed by a semicolon), and ignore the payloads: the output is a function of the
  options, the name of the enumeration and the names of its variants alone, so two
  enumerations that differ only in payloads get the same text. The generators are total
  functions of the node and the options: no input makes them fail, and the same input
  gives the same output. \<open>generateJava\<close> and \<open>generateCSharp\<close> return this text as the
  content of the file \<open>N.java\<close>, respectively \<open>N.cs\<close>, of every enumeration node \<open>N\<close> of
  the context.
\<close>

theorem java_csharp_enum_is_plain:
  "(\<exists>constants. java_enum_lines n options
        = [''package '' @ java_package options @ '';'', '''']
          @ (if includeComments options
             then [''/**'', '' * Enum: '' @ enum_name n, '' */''] else [])
          @ [''public enum '' @ enum_name n @ '' {''] @ constants @ [''}'']
      \<and> length constants = length (enum_variants n)
      \<and> (\<forall>i < length (enum_variants n).
            constants ! i = ''    '' @ toUpperCase (variant_name (enum_variants n ! i))
              @ (if i < length (enum_variants n) - 1 then '','' else '';'')))
   \<and> (\<exists>members. csharp_enum_lines n options
        = [''namespace '' @ csharp_namespace options @ '';'', '''']
          @ (if includeComments options
             then [''/// <summary>'', ''/// Enum: '' @ enum_name n, ''/// </summary>''] else [])
          @ [''public enum '' @ enum_name n, ''{''] @ members @ [''}'']
      \<and> length members = length (enum_variants n)
      \<and> (\<forall>i < length (enum_variants n).
            members ! i = ''    '' @ variant_name (enum_variants n ! i)
              @ (if i < length (enum_variants n) - 1 then '','' else '''')))
   \<and> (enum_name n = enum_name n'
        \<and> map variant_name (enum_variants n) = map variant_name (enum_variants n') \<longrightarrow>
      java_generateEnum n options = java_generateEnum n' options
      \<and> csharp_generateEnum n options = csharp_generateEnum n' options)
   \<and> java_generateEnum n options
       = join nl
           ([''package '' @ java_package options @ '';'', '''']
            @ (if includeComments options
               then [''/**'', '' * Enum: '' @ enum_name n, '' */''] else [])
            @ [''public enum '' @ enum_name n @ '' {'']
            @ map (\<lambda>i. ''    '' @ toUpperCase (variant_name (enum_variants n ! i))
                     @ (if i < length (enum_variants n) - 1 then '','' else '';''))
                [0 ..< length (enum_variants n)]
            @ [''}''])
   \<and> csharp_generateEnum n options
       = join nl
           ([''namespace '' @ csharp_namespace options @ '';'', '''']
            @ (if includeComments options
               then [''/// <summary>'', ''/// Enum: '' @ enum_name n, ''/// </summary>'']
               else [])
            @ [''public enum '' @ enum_name n, ''{'']
            @ map (\<lambda>i. ''    '' @ variant_name (enum_variants n ! i)
                     @ (if i < length (enum_variants n) - 1 then '','' else ''''))
                [0 ..< length (enum_variants n)]
            @ [''}''])
   \<and> ((i, d) \<in> set (nodes c) \<and> node d = Enum n \<longrightarrow>
        \<lparr>filename = enum_name n @ ''.java'', content = java_generateEnum n options,
           file_language = Java\<rparr> \<in> set (generateJava c options)
        \<and> \<lparr>filename = enum_name n @ ''.cs'', content = csharp_generateEnum n options,
             file_language = CSharp\<rparr> \<in> set (generateCSharp c options))"
proof (intro conjI impI)
  let ?vs = "enum_variants n"
  have "\<forall>i < length ?vs. map (java_enum_constant (length ?vs)) (indexed ?vs) ! i
      = ''    '' @ toUpperCase (variant_name (?vs ! i))
        @ (if i < length ?vs - 1 then '','' else '';'')"
    by (simp add: indexed_nth java_enum_constant_def Let_def)
  then show "\<exists>constants. java_enum_lines n options
        = [''package '' @ java_package options @ '';'', '''']
          @ (if includeComments options
             then [''/**'', '' * Enum: '' @ enum_name n, '' */''] else [])
          @ [''public enum '' @ enum_name n @ '' {''] @ constants @ [''}'']
      \<and> length constants = length ?vs
      \<and> (\<forall>i < length ?vs.
            constants ! i = ''    '' @ toUpperCase (variant_name (?vs ! i))
              @ (if i < length ?vs - 1 then '','' else '';''))"
    by (intro exI [of _ "map (java_enum_constant (length ?vs)) (indexed ?vs)"])
      (simp add: java_enum_lines_def)
next
  let ?vs = "enum_variants n"
  have "\<forall>i < length ?vs. map (csharp_enum_member (length ?vs)) (indexed ?vs) ! i
      = ''    '' @ variant_name (?vs ! i) @ (if i < length ?vs - 1 then '','' else '''')"
    by (simp add: indexed_nth csharp_enum_member_def Let_def)
  then show "\<exists>members. csharp_enum_lines n options
        = [''namespace '' @ csharp_namespace options @ '';'', '''']
          @ (if includeComments options
             then [''/// <summary>'', ''/// Enum: '' @ enum_name n, ''/// </summary>''] else [])
          @ [''public enum '' @ enum_name n, ''{''] @ members @ [''}'']
      \<and> length members = length ?vs
      \<and> (\<forall>i < length ?vs.
            members ! i = ''    '' @ variant_name (?vs ! i)
              @ (if i < length ?vs - 1 then '','' else ''''))"
    by (intro exI [of _ "map (csharp_enum_member (length ?vs)) (indexed ?vs)"])
      (simp add: csharp_enum_lines_def)
next
  assume same: "enum_name n = enum_name n'
    \<and> map variant_name (enum_variants n) = map variant_name (enum_variants n')"
  then show "java_generateEnum n options = java_generateEnum n' options"
    by (simp add: java_generateEnum_def java_enum_lines_by_name)
  from same show "csharp_generateEnum n options = csharp_generateEnum n' options"
    by (simp add: csharp_generateEnum_def csharp_enum_lines_by_name)
next
  show "java_generateEnum n options
       = join nl
           ([''package '' @ java_package options @ '';'', '''']
            @ (if includeComments options
               then [''/**'', '' * Enum: '' @ enum_name n, '' */''] else [])
            @ [''public enum '' @ enum_name n @ '' {'']
            @ map (\<lambda>i. ''    '' @ toUpperCase (variant_name (enum_variants n ! i))
                     @ (if i < length (enum_variants n) - 1 then '','' else '';''))
                [0 ..< length (enum_variants n)]
            @ [''}''])"
    by (rule java_generateEnum_text)
  show "csharp_generateEnum n options
       = join nl
           ([''namespace '' @ csharp_namespace options @ '';'', '''']
            @ (if includeComments options
               then [''/// <summary>'', ''/// Enum: '' @ enum_name n, ''/// </summary>'']
               else [])
            @ [''public enum '' @ enum_name n, ''{'']
            @ map (\<lambda>i. ''    '' @ variant_name (enum_variants n ! i)
                     @ (if i < length (enum_variants n) - 1 then '','' else ''''))
                [0 ..< length (enum_variants n)]
            @ [''}''])"
    by (rule csharp_generateEnum_text)
next
  assume "(i, d) \<in> set (nodes c) \<and> node d = Enum n"
  then have e: "(i, d) \<in> set (nodes c)" and d: "node d = Enum n"
    by simp_all
  show "\<lparr>filename = enum_name n @ ''.java'', content = java_generateEnum n options,
           file_language = Java\<rparr> \<in> set (generateJava c options)"
    by (rule enum_files(1) [OF e d])
  show "\<lparr>filename = enum_name n @ ''.cs'', content = csharp_generateEnum n options,
             file_language = CSharp\<rparr> \<in> set (generateCSharp c options)"
    by (rule enum_files(2) [OF e d])
qed

theorem java_csharp_enum_is_plain_witness:
  "enum_name shape_node = enum_name plain_shape_node
   \<and> map variant_name (enum_variants shape_node)
       = map variant_name (enum_variants plain_shape_node)
   \<and> java_generateEnum shape_node (default_options Java)
       = java_generateEnum plain_shape_node (default_options Java)
   \<and> csharp_generateEnum shape_node (default_options CSharp)
       = csharp_generateEnum plain_shape_node (default_options CSharp)
   \<and> length (enum_variants shape_node) = 2
   \<and> nodes shape_context = [(''s1'', \<lparr>node = Enum shape_node, position = (0, 0)\<rparr>)]
   \<and> generateJava shape_context (bare_options Java)
       = [\<lparr>filename = ''Shape.java'',
           content = join nl [''package com.example.domain;'', '''', ''public enum Shape {'',
                              ''    CIRCLE,'', ''    POINT;'', ''}''],
           file_language = Java\<rparr>]
   \<and> generateCSharp shape_context (bare_options CSharp)
       = [\<lparr>filename = ''Shape.cs'',
           content = join nl [''namespace Domain;'', '''', ''public enum Shape'', ''{'',
                              ''    Circle,'', ''    Point'', ''}''],
           file_language = CSharp\<rparr>]"
  using java_csharp_enum_is_plain [of shape_node "default_options Java" plain_shape_node
      "''s1''" "\<lparr>node = Enum shape_node, position = (0, 0)\<rparr>" shape_context]
    java_csharp_enum_is_plain [of shape_node "default_options CSharp" plain_shape_node
      "''s1''" "\<lparr>node = Enum shape_node, position = (0, 0)\<rparr>" shape_context]
    java_csharp_enum_is_plain [of shape_node "bare_options Java" plain_shape_node
      "''s1''" "\<lparr>node = Enum shape_node, position = (0, 0)\<rparr>" shape_context]
    java_csharp_enum_is_plain [of shape_node "bare_options CSharp" plain_shape_node
      "''s1''" "\<lparr>node = Enum shape_node, position = (0, 0)\<rparr>" shape_context]
  by (simp add: shape_node_def plain_shape_node_def shape_context_def generateJava_eq
      generateCSharp_eq java_file_def csharp_file_def java_generateEnum_def
      csharp_generateEnum_def java_shape_lines [unfolded shape_node_def]
      csharp_shape_lines [unfolded shape_node_def])

section \<open>Aggregates\<close>














section \<open>Value objects\<close>

text \<open>A value object with an amount and an optional currency, a price whose amount is
  that value object and which holds from a point in time, and the context of the two.\<close>

definition money_node :: ValueNode where
  "money_node =
     \<lparr>value_name = ''Money'',
      value_fields =
        [\<lparr>field_id = ''f1'', field_name = ''amount'', field_type = ''number'',
          field_optional = False\<rparr>,
         \<lparr>field_id = ''f2'', field_name = ''currency'', field_type = ''string'',
          field_optional = True\<rparr>]\<rparr>"

definition price_node :: ValueNode where
  "price_node =
     \<lparr>value_name = ''Price'',
      value_fields =
        [\<lparr>field_id = ''f1'', field_name = ''amount'', field_type = ''Money'',
          field_optional = False\<rparr>,
         \<lparr>field_id = ''f2'', field_name = ''validFrom'', field_type = ''DateTime'',
          field_optional = False\<rparr>]\<rparr>"

definition price_context :: ContextData where
  "price_context =
     \<lparr>context_id = ''c1'', context_name = ''Pricing'',
      nodes = [(''v1'', \<lparr>node = Value money_node, position = (0, 0)\<rparr>),
               (''v2'', \<lparr>node = Value price_node, position = (250, 0)\<rparr>)],
      context_morphisms = []\<rparr>"

text \<open>The options that \<open>generateCode\<close> passes on when its caller gives none.\<close>

lemma default_options_simps:
  "includeComments (default_options l)" "generateInterfaces (default_options l)"
  "generateClasses (default_options l)"
  "java_package (default_options l) = ''com.example.domain''"
  "csharp_namespace (default_options l) = ''Domain''"
  by (simp_all add: default_options_def defaultOptions_def no_options_def override_def
      java_package_def csharp_namespace_def)

text \<open>
  Claim C7 fails in the TypeScript backend, against the comment that the generator
  itself writes (\<open>identified by its attributes\<close>). For the value object \<open>Price\<close> with the
  fields \<open>amount: Money\<close> and \<open>validFrom: DateTime\<close> no backend writes an identity
  member, but the method \<open>equals\<close> of the TypeScript class compares every field with
  \<open>===\<close>. The two fields are declared with the types \<open>Money\<close> and \<open>Date\<close>, which are
  objects, and of two objects \<open>===\<close> holds only when they are one and the same object:
  two prices with equal amounts and equal dates, built separately, are not \<open>equals\<close>.
  The Java class compares the same fields with \<open>Objects.equals\<close> and the C# type is a
  positional record; both compare the fields by value.
\<close>

theorem typescript_value_equals_by_reference:
  "map field_type (value_fields price_node) = [''Money'', ''DateTime'']
   \<and> ts_generateValueObject price_node (default_options TypeScript)
     = join nl
         [''/**'', '' * Value Object: Price'',
          '' * An immutable value type identified by its attributes'', '' */'',
          ''export interface Price {'',
          ''  readonly amount: Money;'',
          ''  readonly validFrom: Date;'',
          ''}'',
          [],
          ''export class PriceImpl implements Price {'',
          ''  readonly amount: Money;'',
          ''  readonly validFrom: Date;'',
          [],
          ''  constructor(data: Price) {'',
          ''    this.amount = data.amount;'',
          ''    this.validFrom = data.validFrom;'',
          ''  }'',
          [],
          ''  equals(other: Price): boolean {'',
          ''    return this.amount === other.amount && this.validFrom === other.validFrom;'',
          ''  }'',
          ''}'']
   \<and> ts_generateValueObject price_node (default_options TypeScript)
       \<in> set (generateTypeScript_lines ''2026-01-01T00:00:00.000Z'' price_context
                (default_options TypeScript))
   \<and> java_generateValueObject price_node (default_options Java)
     = join nl
         [''package com.example.domain;'', [], ''import java.util.Objects;'', [],
          ''/**'', '' * Value Object: Price'',
          '' * An immutable value type identified by its attributes'', '' */'',
          ''public final class Price {'', [],
          ''    private final Money amount;'',
          ''    private final LocalDateTime validFrom;'',
          [],
          ''    public Price(Money amount, LocalDateTime validFrom) {'',
          ''        this.amount = amount;'',
          ''        this.validFrom = validFrom;'',
          ''    }'',
          [],
          ''    public Money getAmount() {'',
          ''        return amount;'',
          ''    }'',
          [],
          ''    public LocalDateTime getValidFrom() {'',
          ''        return validFrom;'',
          ''    }'',
          [],
          ''    @Override'',
          ''    public boolean equals(Object o) {'',
          ''        if (this == o) return true;'',
          ''        if (o == null || getClass() != o.getClass()) return false;'',
          ''        Price that = (Price) o;'',
          ''        return Objects.equals(amount, that.amount) && Objects.equals(validFrom, that.validFrom);'',
          ''    }'',
          [],
          ''    @Override'',
          ''    public int hashCode() {'',
          ''        return Objects.hash(amount, validFrom);'',
          ''    }'',
          ''}'']
   \<and> csharp_generateValueObject price_node (default_options CSharp)
     = join nl
         [''namespace Domain;'', [],
          ''/// <summary>'', ''/// Value Object: Price'',
          ''/// An immutable value type identified by its attributes'', ''/// </summary>'',
          ''public record Price(Money Amount, DateTime ValidFrom);'']"
proof (intro conjI)
  show "map field_type (value_fields price_node) = [''Money'', ''DateTime'']"
    by (simp add: price_node_def)
  show "ts_generateValueObject price_node (default_options TypeScript)
     = join nl
         [''/**'', '' * Value Object: Price'',
          '' * An immutable value type identified by its attributes'', '' */'',
          ''export interface Price {'',
          ''  readonly amount: Money;'',
          ''  readonly validFrom: Date;'',
          ''}'',
          [],
          ''export class PriceImpl implements Price {'',
          ''  readonly amount: Money;'',
          ''  readonly validFrom: Date;'',
          [],
          ''  constructor(data: Price) {'',
          ''    this.amount = data.amount;'',
          ''    this.validFrom = data.validFrom;'',
          ''  }'',
          [],
          ''  equals(other: Price): boolean {'',
          ''    return this.amount === other.amount && this.validFrom === other.validFrom;'',
          ''  }'',
          ''}'']"
    by (simp add: ts_generateValueObject_def ts_value_lines_def default_options_simps
        ts_value_comment_def ts_value_interface_def ts_value_class_def ts_value_member_def
        ts_value_class_member_def ts_ctor_line_def ts_equals_expr_def ts_equals_term_def
        price_node_def mapTypeToTS_def type_or_name_def ts_typeMap_def inherited_text_def
        inherited_functions_def Let_def)
  show "ts_generateValueObject price_node (default_options TypeScript)
       \<in> set (generateTypeScript_lines ''2026-01-01T00:00:00.000Z'' price_context
                (default_options TypeScript))"
    using ts_item_in_lines [of "(''v2'', \<lparr>node = Value price_node, position = (250, 0)\<rparr>)"
        price_context "default_options TypeScript" "''2026-01-01T00:00:00.000Z''"]
    by (simp add: price_context_def)
  show "java_generateValueObject price_node (default_options Java)
     = join nl
         [''package com.example.domain;'', [], ''import java.util.Objects;'', [],
          ''/**'', '' * Value Object: Price'',
          '' * An immutable value type identified by its attributes'', '' */'',
          ''public final class Price {'', [],
          ''    private final Money amount;'',
          ''    private final LocalDateTime validFrom;'',
          [],
          ''    public Price(Money amount, LocalDateTime validFrom) {'',
          ''        this.amount = amount;'',
          ''        this.validFrom = validFrom;'',
          ''    }'',
          [],
          ''    public Money getAmount() {'',
          ''        return amount;'',
          ''    }'',
          [],
          ''    public LocalDateTime getValidFrom() {'',
          ''        return validFrom;'',
          ''    }'',
          [],
          ''    @Override'',
          ''    public boolean equals(Object o) {'',
          ''        if (this == o) return true;'',
          ''        if (o == null || getClass() != o.getClass()) return false;'',
          ''        Price that = (Price) o;'',
          ''        return Objects.equals(amount, that.amount) && Objects.equals(validFrom, that.validFrom);'',
          ''    }'',
          [],
          ''    @Override'',
          ''    public int hashCode() {'',
          ''        return Objects.hash(amount, validFrom);'',
          ''    }'',
          ''}'']"
    by (simp add: java_generateValueObject_def java_value_lines_def default_options_simps
        java_value_member_def java_getter_def java_equals_expr_def java_equals_term_def
        price_node_def mapTypeToJava_def type_or_name_def java_typeMap_def inherited_text_def
        inherited_functions_def Let_def upper_char_def)
  show "csharp_generateValueObject price_node (default_options CSharp)
     = join nl
         [''namespace Domain;'', [],
          ''/// <summary>'', ''/// Value Object: Price'',
          ''/// An immutable value type identified by its attributes'', ''/// </summary>'',
          ''public record Price(Money Amount, DateTime ValidFrom);'']"
    by (simp add: csharp_generateValueObject_def csharp_value_lines_def default_options_simps
        csharp_record_param_def price_node_def mapTypeToCSharp_def type_or_name_def
        csharp_typeMap_def inherited_text_def inherited_functions_def Let_def upper_char_def)
qed

section \<open>The edit distance\<close>

text \<open>The row-by-row computation gives the distance that the recurrence defines.\<close>

lemma lev_matrix_zero [simp]: "lev_matrix a b i 0 = i"
  by (cases i) simp_all

lemma lev_cells_matrix:
  assumes "j \<le> length b"
  shows "lev_cells (a ! i) (drop j b) (lev_matrix a b i j) (lev_matrix a b (Suc i) j)
           (map (lev_matrix a b i) [Suc j ..< Suc (length b)])
         = map (lev_matrix a b (Suc i)) [Suc j ..< Suc (length b)]"
  using assms
proof (induction "length b - j" arbitrary: j)
  case 0
  then have "j = length b"
    by simp
  then show ?case
    by (simp del: upt_Suc)
next
  case (Suc d)
  then have j: "j < length b"
    by simp
  then have d: "drop j b = b ! j # drop (Suc j) b"
    by (simp add: Cons_nth_drop_Suc)
  have u: "[Suc j ..< Suc (length b)] = Suc j # [Suc (Suc j) ..< Suc (length b)]"
    using j by (simp add: upt_conv_Cons del: upt_Suc)
  have ih: "lev_cells (a ! i) (drop (Suc j) b) (lev_matrix a b i (Suc j))
              (lev_matrix a b (Suc i) (Suc j))
              (map (lev_matrix a b i) [Suc (Suc j) ..< Suc (length b)])
            = map (lev_matrix a b (Suc i)) [Suc (Suc j) ..< Suc (length b)]"
    using Suc.hyps(1) [of "Suc j"] Suc.hyps(2) j by simp
  show ?case
    unfolding d u list.map lev_cells.simps Let_def lev_matrix.simps(3) [symmetric] ih
    by (rule refl)
qed

lemma lev_row_matrix:
  "lev_row b (a ! i) (map (lev_matrix a b i) [0 ..< Suc (length b)])
   = map (lev_matrix a b (Suc i)) [0 ..< Suc (length b)]"
proof -
  have u: "[0 ..< Suc (length b)] = 0 # [Suc 0 ..< Suc (length b)]"
    by (simp add: upt_conv_Cons del: upt_Suc)
  show ?thesis
    unfolding u using lev_cells_matrix [of 0 b a i] by (simp del: upt_Suc)
qed

lemma fold_lev_row_matrix:
  "i \<le> length a \<Longrightarrow>
   fold (lev_row b) (take i a) (map (lev_matrix a b 0) [0 ..< Suc (length b)])
   = map (lev_matrix a b i) [0 ..< Suc (length b)]"
proof (induction i)
  case 0
  show ?case by (simp del: upt_Suc)
next
  case (Suc i)
  then have "take (Suc i) a = take i a @ [a ! i]"
    by (simp add: take_Suc_conv_app_nth)
  then show ?case
    using Suc by (simp add: lev_row_matrix del: upt_Suc)
qed

lemma levenshtein_matrix: "levenshtein a b = lev_matrix a b (length a) (length b)"
proof -
  have "map (lev_matrix a b 0) [0 ..< Suc (length b)] = [0 ..< length b + 1]"
    by (simp add: map_idI del: upt_Suc)
  then have "fold (lev_row b) a [0 ..< length b + 1]
             = map (lev_matrix a b (length a)) [0 ..< Suc (length b)]"
    using fold_lev_row_matrix [of "length a" a b] by (simp del: upt_Suc)
  then show ?thesis
    by (simp add: levenshtein_def last_map)
qed

section \<open>The typo in the Commerce context\<close>

text \<open>What the specification asks of \<open>nearest\<close>: \<open>c\<close> is a closest candidate, and the
  first one among the candidates at that distance.\<close>

definition first_closest :: "string \<Rightarrow> string list \<Rightarrow> string \<Rightarrow> bool" where
  "first_closest name cs c =
     (\<exists>i < length cs. cs ! i = c
        \<and> (\<forall>j < length cs. levenshtein name c \<le> levenshtein name (cs ! j))
        \<and> (\<forall>j < i. levenshtein name c < levenshtein name (cs ! j)))"

lemma closest_None: "closest name cs = None \<longleftrightarrow> cs = []"
  by (induction cs) (simp_all split: option.split)

lemma closest_first_closest: "closest name cs = Some c \<Longrightarrow> first_closest name cs c"
proof (induction cs arbitrary: c)
  case Nil
  then show ?case by simp
next
  case (Cons x xs)
  show ?case
  proof (cases "closest name xs")
    case None
    then have "xs = []" and "c = x"
      using Cons.prems by (simp_all add: closest_None)
    then show ?thesis
      by (simp add: first_closest_def)
  next
    case (Some b)
    then have "first_closest name xs b"
      by (rule Cons.IH)
    then obtain i where i: "i < length xs" "xs ! i = b"
      and least: "\<forall>j < length xs. levenshtein name b \<le> levenshtein name (xs ! j)"
      and first: "\<forall>j < i. levenshtein name b < levenshtein name (xs ! j)"
      by (auto simp: first_closest_def)
    show ?thesis
    proof (cases "levenshtein name x \<le> levenshtein name b")
      case True
      then have c: "c = x"
        using Cons.prems Some by simp
      have "\<forall>j < length (x # xs). levenshtein name x \<le> levenshtein name ((x # xs) ! j)"
      proof (intro allI impI)
        fix j
        assume "j < length (x # xs)"
        then show "levenshtein name x \<le> levenshtein name ((x # xs) ! j)"
          using True least by (cases j) (auto intro: order_trans)
      qed
      then show ?thesis
        unfolding first_closest_def c
        by (intro exI [of _ 0]) simp
    next
      case False
      then have c: "c = b"
        using Cons.prems Some by simp
      have "\<forall>j < length (x # xs). levenshtein name b \<le> levenshtein name ((x # xs) ! j)"
      proof (intro allI impI)
        fix j
        assume "j < length (x # xs)"
        then show "levenshtein name b \<le> levenshtein name ((x # xs) ! j)"
          using False least by (cases j) auto
      qed
      moreover have "\<forall>j < Suc i. levenshtein name b < levenshtein name ((x # xs) ! j)"
      proof (intro allI impI)
        fix j
        assume "j < Suc i"
        then show "levenshtein name b < levenshtein name ((x # xs) ! j)"
          using False first by (cases j) auto
      qed
      ultimately show ?thesis
        unfolding first_closest_def c using i
        by (intro exI [of _ "Suc i"]) simp
    qed
  qed
qed

lemma first_closest_unique:
  assumes "first_closest name cs c" and "first_closest name cs c'"
  shows "c = c'"
proof -
  obtain i where i: "i < length cs" "cs ! i = c"
    and li: "\<forall>j < length cs. levenshtein name c \<le> levenshtein name (cs ! j)"
    and fi: "\<forall>j < i. levenshtein name c < levenshtein name (cs ! j)"
    using assms(1) by (auto simp: first_closest_def)
  obtain k where k: "k < length cs" "cs ! k = c'"
    and lk: "\<forall>j < length cs. levenshtein name c' \<le> levenshtein name (cs ! j)"
    and fk: "\<forall>j < k. levenshtein name c' < levenshtein name (cs ! j)"
    using assms(2) by (auto simp: first_closest_def)
  have "\<not> i < k"
  proof
    assume "i < k"
    then have "levenshtein name c' < levenshtein name c"
      using fk i by auto
    moreover have "levenshtein name c \<le> levenshtein name c'"
      using li k by auto
    ultimately show False by simp
  qed
  moreover have "\<not> k < i"
  proof
    assume "k < i"
    then have "levenshtein name c < levenshtein name c'"
      using fi k by auto
    moreover have "levenshtein name c' \<le> levenshtein name c"
      using lk i by auto
    ultimately show False by simp
  qed
  ultimately have "i = k"
    by simp
  then show ?thesis
    using i k by simp
qed

lemma suggest_iff:
  "suggest names name = Some c
   \<longleftrightarrow> first_closest name names c
       \<and> levenshtein name c \<le> min 3 ((3 * length name + 9) div 10)"
proof
  assume s: "suggest names name = Some c"
  then have "closest name names = Some c"
    by (auto simp: suggest_def nearest_def split: option.splits if_splits)
  moreover from s have "levenshtein name c \<le> suggestion_bound name"
    by (auto simp: suggest_def nearest_def split: option.splits if_splits)
  ultimately show "first_closest name names c
       \<and> levenshtein name c \<le> min 3 ((3 * length name + 9) div 10)"
    by (simp add: closest_first_closest suggestion_bound_def)
next
  assume a: "first_closest name names c
       \<and> levenshtein name c \<le> min 3 ((3 * length name + 9) div 10)"
  then have "names \<noteq> []"
    by (auto simp: first_closest_def)
  then obtain b where b: "closest name names = Some b"
    using closest_None [of name names] by (cases "closest name names") auto
  then have "first_closest name names b"
    by (rule closest_first_closest)
  with a have "b = c"
    using first_closest_unique by blast
  with a b show "suggest names name = Some c"
    by (simp add: suggest_def nearest_def suggestion_bound_def)
qed

text \<open>The context \<open>Commerce\<close> of the scenario: the entities \<open>Customer\<close> and \<open>Order\<close>, and
  the morphism \<open>placedBy\<close> from \<open>Order\<close> to the misspelt \<open>Custommer\<close>.\<close>

definition commerce :: "Cardinality \<Rightarrow> Sketch" where
  "commerce k =
     \<lparr>sketch_name = ''Commerce'',
      sketch_objects = [(''Customer'', KEntity), (''Order'', KEntity)],
      sketch_morphisms =
        [\<lparr>sm_name = ''placedBy'', sm_source = ''Order'', sm_target = ''Custommer'',
          sm_cardinality = k\<rparr>]\<rparr>"

lemma typo_distances:
  "levenshtein ''Custommer'' ''Customer'' = 1"
  "levenshtein ''Custommer'' ''Order'' = 7"
  by code_simp+

lemma typo_suggestion: "suggest [''Customer'', ''Order''] ''Custommer'' = Some ''Customer''"
  by (simp add: suggest_def nearest_def suggestion_bound_def typo_distances)

lemma commerce_pass:
  "morphism_reference_pass (commerce k)
   = [\<lparr>d_severity = Error, d_code = ''E0001'',
       d_message = ''Unknown object '' @ sq @ ''Custommer'' @ sq @ '' referenced in context ''
         @ sq @ ''Commerce'' @ sq,
       d_labels = [''placedBy''],
       d_suggestions = [\<lparr>fix_message = ''did you mean '' @ sq @ ''Customer'' @ sq @ ''?'',
                         replacement = ''Customer''\<rparr>],
       d_notes = []\<rparr>]"
  by (simp add: morphism_reference_pass_def unresolved_def resolve_def commerce_def
      reference_diagnostic_def allNames_def typo_suggestion Let_def)

lemma commerce_message_names_typo:
  "sublist ''Custommer''
     (''Unknown object '' @ sq @ ''Custommer'' @ sq @ '' referenced in context ''
        @ sq @ ''Commerce'' @ sq)"
proof -
  have "sublist ''Custommer''
      ((''Unknown object '' @ sq) @ ''Custommer''
         @ (sq @ '' referenced in context '' @ sq @ ''Commerce'' @ sq))"
    by (rule sublist_appendI)
  then show ?thesis
    by simp
qed

text \<open>
  Claim C5. For the context \<open>Commerce\<close> with the entities \<open>Customer\<close> and \<open>Order\<close> and the
  morphism \<open>placedBy: Order \<rightarrow> Custommer\<close>, of any cardinality, the morphism reference pass
  reports exactly one diagnostic: an error whose code is one of \<open>E0001\<close> to \<open>E0009\<close>, whose
  message contains \<open>Custommer\<close>, and which carries the suggestion \<open>Customer\<close>, a name at
  edit distance 1. In general a name is suggested exactly when it is the closest
  candidate by edit distance, the first one in the order of the index among equally
  close ones, and its distance is at most \<open>min(3, ceil(0.3 \<times> len(name)))\<close>; the
  distance is the Levenshtein distance of the two names.
\<close>

theorem typo_reported_once_with_suggestion:
  "(\<exists>d. morphism_reference_pass (commerce k) = [d]
        \<and> d_severity d = Error
        \<and> d_code d \<in> set morphism_reference_codes
        \<and> sublist ''Custommer'' (d_message d)
        \<and> map replacement (d_suggestions d) = [''Customer'']
        \<and> map fix_message (d_suggestions d) = [''did you mean '' @ sq @ ''Customer'' @ sq @ ''?''])
   \<and> levenshtein ''Custommer'' ''Customer'' = 1
   \<and> (suggest names name = Some c
        \<longleftrightarrow> first_closest name names c
            \<and> levenshtein name c \<le> min 3 ((3 * length name + 9) div 10))
   \<and> levenshtein name c = lev_matrix name c (length name) (length c)"
proof (intro conjI)
  show "levenshtein name c = lev_matrix name c (length name) (length c)"
    by (rule levenshtein_matrix)
next
  let ?m = "''Unknown object '' @ sq @ ''Custommer'' @ sq @ '' referenced in context ''
         @ sq @ ''Commerce'' @ sq"
  let ?d = "\<lparr>d_severity = Error, d_code = ''E0001'', d_message = ?m,
       d_labels = [''placedBy''],
       d_suggestions = [\<lparr>fix_message = ''did you mean '' @ sq @ ''Customer'' @ sq @ ''?'',
                         replacement = ''Customer''\<rparr>],
       d_notes = []\<rparr>"
  have pass: "morphism_reference_pass (commerce k) = [?d]"
    by (rule commerce_pass)
  have msg: "d_message ?d = ?m"
    by (simp only: Diagnostic.select_convs)
  have named: "sublist ''Custommer'' (d_message ?d)"
    unfolding msg by (rule commerce_message_names_typo)
  have sev: "d_severity ?d = Error"
    by simp
  have cod: "d_code ?d \<in> set morphism_reference_codes"
    by (simp add: morphism_reference_codes_def)
  have rep: "map replacement (d_suggestions ?d) = [''Customer'']"
    by simp
  have fix_text: "map fix_message (d_suggestions ?d)
      = [''did you mean '' @ sq @ ''Customer'' @ sq @ ''?'']"
    by simp
  show "\<exists>d. morphism_reference_pass (commerce k) = [d]
        \<and> d_severity d = Error
        \<and> d_code d \<in> set morphism_reference_codes
        \<and> sublist ''Custommer'' (d_message d)
        \<and> map replacement (d_suggestions d) = [''Customer'']
        \<and> map fix_message (d_suggestions d) = [''did you mean '' @ sq @ ''Customer'' @ sq @ ''?'']"
    by (rule exI [of _ ?d]) (intro conjI pass sev cod named rep fix_text)
  show "levenshtein ''Custommer'' ''Customer'' = 1"
    by (rule typo_distances)
  show "suggest names name = Some c
        \<longleftrightarrow> first_closest name names c
            \<and> levenshtein name c \<le> min 3 ((3 * length name + 9) div 10)"
    by (rule suggest_iff)
qed

theorem typo_reported_once_with_suggestion_witness:
  "length (morphism_reference_pass (commerce One)) = 1
   \<and> map d_code (morphism_reference_pass (commerce One)) = [''E0001'']
   \<and> suggest (allNames (commerce One)) ''Custommer'' = Some ''Customer''
   \<and> first_closest ''Custommer'' [''Customer'', ''Order''] ''Customer''
   \<and> levenshtein ''Custommer'' ''Customer'' \<le> min 3 ((3 * length ''Custommer'' + 9) div 10)"
proof -
  have names: "allNames (commerce One) = [''Customer'', ''Order'']"
    by (simp add: allNames_def commerce_def)
  show ?thesis
    using typo_reported_once_with_suggestion
      [of One "[''Customer'', ''Order'']" "''Custommer''" "''Customer''"]
    by (simp add: commerce_pass typo_suggestion names del: lev_matrix.simps)
qed

end
